theory Spec2Isabelle
  imports
    Main
    "HOL-Library.Finite_Map"
    "HOL-Library.Char_ord"
    "HOL-Library.List_Lexorder"
    "HOL-Library.Multiset"
begin

section \<open>The profile handlers of the LXD daemon\<close>

text \<open>
  The source is the file of the daemon that serves the endpoints \<^verbatim>\<open>profiles\<close> and
  \<^verbatim>\<open>profiles/{name}\<close>: the handlers \<^verbatim>\<open>profilesGet\<close>, \<^verbatim>\<open>profilesPost\<close>, \<^verbatim>\<open>profileGet\<close>,
  \<^verbatim>\<open>profilePut\<close>, \<^verbatim>\<open>profilePatch\<close>, \<^verbatim>\<open>profilePost\<close> and \<^verbatim>\<open>profileDelete\<close>. Each handler is
  a function from the daemon and the request to the response and the daemon afterwards.
  What a handler calls and the source file does not hold (the database layer, the ETag
  helpers, \<^verbatim>\<open>SmartError\<close>, \<^verbatim>\<open>doProfileUpdate\<close>) is modelled from the specification and
  marked so; collaborators outside the profile protocol (validators, the instance index,
  the cluster notifier, the JSON decoders of the Go library) are fields of the daemon and
  of the request, so every theorem holds for each of their behaviours.
\<close>

subsection \<open>Data model\<close>

text \<open>
  A Go map can be \<^verbatim>\<open>nil\<close>: \<open>None\<close> is the nil map, \<open>Some m\<close> a map that was made.
  Maps are finite maps; they have no entry order.
\<close>

type_synonym config = "(string, string) fmap option"

type_synonym devices = "(string, (string, string) fmap) fmap option"

text \<open>\<^verbatim>\<open>api.ProfilePut\<close>: the fields of a profile that a request may change.\<close>

record ProfilePut =
  Config :: config
  Description :: string
  Devices :: devices

text \<open>\<^verbatim>\<open>api.ProfilePost\<close>, the document of a rename request: the new name.\<close>

record ProfilePost =
  Name :: string

text \<open>
  \<^verbatim>\<open>api.Profile\<close> embeds \<^verbatim>\<open>ProfilePut\<close> and adds the name; \<^verbatim>\<open>api.ProfilesPost\<close>, the
  document of a create request, has the same fields. \<^verbatim>\<open>db.Profile\<close> adds the project
  (lines 118-124 of the source).
\<close>

record Profile = ProfilePut +
  Name :: string

type_synonym ProfilesPost = Profile

record db_Profile = Profile +
  Project :: string

definition ProfileToAPI :: "db_Profile \<Rightarrow> Profile" where
  "ProfileToAPI p =
     \<lparr>Config = Config p, Description = Description p, Devices = Devices p,
      Name = Profile.Name p\<rparr>"

text \<open>\<^verbatim>\<open>profile.ProfilePut\<close>: the embedded struct of an \<^verbatim>\<open>api.Profile\<close>.\<close>

definition ProfilePut_of :: "Profile \<Rightarrow> ProfilePut" where
  "ProfilePut_of p = \<lparr>Config = Config p, Description = Description p, Devices = Devices p\<rparr>"

text \<open>Reading a key of a Go map: a nil map has no key.\<close>

definition lookupMap :: "(string, 'v) fmap option \<Rightarrow> string \<Rightarrow> 'v option" where
  "lookupMap m k = (case m of None \<Rightarrow> None | Some f \<Rightarrow> fmlookup f k)"

subsection \<open>Errors and responses\<close>

text \<open>
  An error value. \<open>Errorf\<close> is \<^verbatim>\<open>fmt.Errorf\<close> (and \<^verbatim>\<open>errors.New\<close>, with no argument): a
  new error made of a format and its arguments, with no cause behind it. \<open>Wrap\<close> is
  \<^verbatim>\<open>errors.Wrap\<close>, which keeps the cause. The first four are the failures that the store
  and the concurrency guard report in the specification (sections 4.2 and 4.3).
\<close>

datatype error =
    ErrNotFound
  | ErrAlreadyExists
  | ErrConflict
  | ErrMismatch
  | Errorf string "arg list"
  | Wrap error string
and arg =
    ArgS string
  | ArgE error

fun Cause :: "error \<Rightarrow> error" where
  "Cause (Wrap err msg) = Cause err"
| "Cause err = err"

text \<open>
  The token of the concurrency guard: the three fields in a fixed order, each map as the
  list of its entries (\<open>None\<close> for a nil map).
\<close>

datatype etag =
  Etag "(string \<times> string) list option" string
       "(string \<times> (string \<times> string) list) list option"

text \<open>The data a handler builds an ETag from: \<^verbatim>\<open>[]interface{}{Config, Description, Devices}\<close>.\<close>

type_synonym etag_data = "config \<times> string \<times> devices"

text \<open>
  Modelled from the spec: \<^verbatim>\<open>util.EtagHash\<close> is not in the source file. Section 4.3 asks
  for a token derived from (config, description, devices) and allows an ordered
  serialization of the three fields: the token is that serialization, every map listed in
  the order of its keys.
\<close>

definition EtagHash :: "etag_data \<Rightarrow> etag" where
  "EtagHash data =
     (case data of (c, d, v) \<Rightarrow>
        Etag (map_option sorted_list_of_fmap c) d
             (map_option (\<lambda>m. sorted_list_of_fmap (fmmap sorted_list_of_fmap m)) v))"

text \<open>What \<^verbatim>\<open>profilesGet\<close> answers with: full profiles, or their URIs.\<close>

datatype payload =
    Profiles "Profile list"
  | URIs "string list"

text \<open>
  The responses. The first four are the successes the handlers build; \<open>BadRequest\<close>,
  \<open>PreconditionFailed\<close>, \<open>Forbidden\<close> and \<open>InternalError\<close> are built by the handlers
  from an error; the last four are the remaining failure categories of the taxonomy
  (section 7), which carry no error of their own.
\<close>

datatype response =
    SyncResponse bool payload
  | SyncETag bool Profile etag
  | SyncResponseLocation bool string
  | EmptySyncResponse
  | is_BadRequest: BadRequest error
  | is_PreconditionFailed: PreconditionFailed error
  | is_Forbidden: Forbidden error
  | is_InternalError: InternalError error
  | is_NotFound: NotFound
  | is_AlreadyExists: AlreadyExists
  | is_Conflict: Conflict
  | is_InUse: InUse

text \<open>
  Modelled from the spec: \<^verbatim>\<open>SyncResponseETag\<close> is not in the source file. The response
  carries the fingerprint of the data it is given (section 4.7, Get: "returns Profile +
  fingerprint").
\<close>

definition SyncResponseETag :: "bool \<Rightarrow> Profile \<Rightarrow> etag_data \<Rightarrow> response" where
  "SyncResponseETag success metadata data = SyncETag success metadata (EtagHash data)"

text \<open>
  Modelled from the spec: \<^verbatim>\<open>SmartError\<close> is not in the source file. No error is the
  empty success (line 223 returns \<^verbatim>\<open>SmartError(err)\<close> on the success path); an error
  whose cause is one of the store's failures becomes the response of that category; an
  error with no such cause is an internal error.
\<close>

definition SmartError :: "error option \<Rightarrow> response" where
  "SmartError err =
     (case err of
        None \<Rightarrow> EmptySyncResponse
      | Some e \<Rightarrow>
          (case Cause e of
             ErrNotFound \<Rightarrow> NotFound
           | ErrAlreadyExists \<Rightarrow> AlreadyExists
           | ErrConflict \<Rightarrow> Conflict
           | _ \<Rightarrow> InternalError e))"

text \<open>\<^verbatim>\<open>version.APIVersion\<close>, declared outside the source file.\<close>

definition APIVersion :: string where
  "APIVersion = ''1.0''"

subsection \<open>The request\<close>

text \<open>
  \<^verbatim>\<open>shared.Jmap\<close>, the untyped document: a map from keys to JSON values, of which the
  handlers only ask whether a value is a string.
\<close>

datatype jvalue =
    JString string
  | JOther

type_synonym Jmap = "string \<Rightarrow> jvalue option"

text \<open>
  Modelled from the spec: \<^verbatim>\<open>Jmap.GetString\<close> is not in the source file. It fails when
  the document does not contain the key (section 4.4); a value that is not a string is
  not returned as one either.
\<close>

definition GetString :: "Jmap \<Rightarrow> string \<Rightarrow> error + string" where
  "GetString m key =
     (case m key of
        None \<Rightarrow> Inl (Errorf ''Response was missing `%s`'' [ArgS key])
      | Some JOther \<Rightarrow> Inl (Errorf ''`%s` was not a string'' [ArgS key])
      | Some (JString val) \<Rightarrow> Inr val)"

text \<open>
  What a handler reads of the request \<^verbatim>\<open>r\<close>: \<^verbatim>\<open>projectParam(r)\<close>,
  \<^verbatim>\<open>mux.Vars(r)["name"]\<close>, \<^verbatim>\<open>util.IsRecursionRequest(r)\<close>, the token of the
  \<^verbatim>\<open>If-Match\<close> header (\<open>None\<close> when the request carries none),
  \<^verbatim>\<open>isClusterNotification(r)\<close>, and the body: the error of \<^verbatim>\<open>ioutil.ReadAll\<close> if any,
  and what the JSON decoder of the Go library makes of the bytes for each type a handler
  decodes them into (\<open>Inl\<close> its error).
\<close>

record request =
  projectParam :: string
  vars_name :: string
  IsRecursionRequest :: bool
  IfMatch :: "etag option"
  isClusterNotification :: bool
  ReadAll :: "error option"
  DecodeJmap :: "error + Jmap"
  DecodeProfilePut :: "error + ProfilePut"
  DecodeProfilesPost :: "error + ProfilesPost"
  DecodeProfilePost :: "error + ProfilePost"

text \<open>
  Modelled from the spec: \<^verbatim>\<open>util.EtagCheck\<close> is not in the source file. The token of
  the request is compared with the fingerprint of the data (section 4.3,
  \<^verbatim>\<open>checkPrecondition(request, token)\<close>, ok or Mismatch); a request that carries no token
  has nothing to compare.
\<close>

definition EtagCheck :: "request \<Rightarrow> etag_data \<Rightarrow> error option" where
  "EtagCheck r data =
     (case IfMatch r of
        None \<Rightarrow> None
      | Some match \<Rightarrow> if EtagHash data \<noteq> match then Some ErrMismatch else None)"

subsection \<open>The store\<close>

text \<open>
  The profiles of the cluster database: the fields of each live profile under its
  namespace and name, so that the pair is unique among live profiles (section 3). The
  numeric id of a row is left out: the handlers only hand it on to \<^verbatim>\<open>doProfileUpdate\<close>.
\<close>

type_synonym ClusterTx = "(string \<times> string, ProfilePut) fmap"

text \<open>
  Modelled from the spec: \<^verbatim>\<open>tx.ProfileGet\<close> is not in the source file, as the whole
  database layer. Its calls are those of the store adapter (section 4.2), all scoped by
  the namespace they are given. This is the get: it fails with NotFound, and gives the
  profile as a \<^verbatim>\<open>db.Profile\<close> otherwise.
\<close>

definition tx_ProfileGet :: "ClusterTx \<Rightarrow> string \<Rightarrow> string \<Rightarrow> error + db_Profile" where
  "tx_ProfileGet tx project name =
     (case fmlookup tx (project, name) of
        None \<Rightarrow> Inl ErrNotFound
      | Some p \<Rightarrow>
          Inr \<lparr>Config = Config p, Description = Description p, Devices = Devices p,
               Name = name, Project = project\<rparr>)"

text \<open>
  Modelled from the spec: \<^verbatim>\<open>d.cluster.ProfileGet\<close> is not in the source file. It is the
  get of section 4.2 in a transaction of its own, and gives the profile as an
  \<^verbatim>\<open>api.Profile\<close>; a nil profile is \<open>Inl\<close>.
\<close>

definition cluster_ProfileGet :: "ClusterTx \<Rightarrow> string \<Rightarrow> string \<Rightarrow> error + Profile" where
  "cluster_ProfileGet tx project name =
     (case tx_ProfileGet tx project name of
        Inl err \<Rightarrow> Inl err
      | Inr p \<Rightarrow> Inr (ProfileToAPI p))"

text \<open>
  Modelled from the spec: \<^verbatim>\<open>tx.ProfileCreate\<close> is not in the source file. The create of
  section 4.2: it fails with AlreadyExists, and inserts under the project and name of the
  object otherwise.
\<close>

definition tx_ProfileCreate :: "ClusterTx \<Rightarrow> db_Profile \<Rightarrow> error option \<times> ClusterTx" where
  "tx_ProfileCreate tx object =
     (case fmlookup tx (Project object, Profile.Name object) of
        Some _ \<Rightarrow> (Some ErrAlreadyExists, tx)
      | None \<Rightarrow>
          (None,
           fmupd (Project object, Profile.Name object)
             \<lparr>Config = Config object, Description = Description object,
              Devices = Devices object\<rparr> tx))"

text \<open>
  Modelled from the spec: \<^verbatim>\<open>tx.ProfileRename\<close> is not in the source file. The rename of
  section 4.2: it fails with NotFound or Conflict, and changes the name, the fields
  unchanged, otherwise.
\<close>

definition tx_ProfileRename ::
  "ClusterTx \<Rightarrow> string \<Rightarrow> string \<Rightarrow> string \<Rightarrow> error option \<times> ClusterTx" where
  "tx_ProfileRename tx project name to =
     (case fmlookup tx (project, name) of
        None \<Rightarrow> (Some ErrNotFound, tx)
      | Some p \<Rightarrow>
          (case fmlookup tx (project, to) of
             Some _ \<Rightarrow> (Some ErrConflict, tx)
           | None \<Rightarrow> (None, fmupd (project, to) p (fmdrop (project, name) tx))))"

text \<open>
  Modelled from the spec: \<^verbatim>\<open>tx.ProfileDelete\<close> is not in the source file. The delete of
  section 4.2: it fails with NotFound, and removes the profile otherwise.
\<close>

definition tx_ProfileDelete :: "ClusterTx \<Rightarrow> string \<Rightarrow> string \<Rightarrow> error option \<times> ClusterTx" where
  "tx_ProfileDelete tx project name =
     (case fmlookup tx (project, name) of
        None \<Rightarrow> (Some ErrNotFound, tx)
      | Some _ \<Rightarrow> (None, fmdrop (project, name) tx))"

text \<open>
  Modelled from the spec: the replace of section 4.2, which \<^verbatim>\<open>doProfileUpdate\<close> calls, is
  not in the source file. It fails with NotFound, and overwrites the three fields
  otherwise.
\<close>

definition tx_ProfileUpdate ::
  "ClusterTx \<Rightarrow> string \<Rightarrow> string \<Rightarrow> ProfilePut \<Rightarrow> error option \<times> ClusterTx" where
  "tx_ProfileUpdate tx project name req =
     (case fmlookup tx (project, name) of
        None \<Rightarrow> (Some ErrNotFound, tx)
      | Some _ \<Rightarrow> (None, fmupd (project, name) req tx))"

text \<open>
  Modelled from the spec: the list of section 4.2 is not in the source file. The names of
  the profiles of a namespace, in their order; \<^verbatim>\<open>tx.ProfileList\<close> gives the profiles
  under these names and \<^verbatim>\<open>tx.ProfileURIs\<close> their URIs. The filter of the source has
  the project only.
\<close>

definition profileNames :: "ClusterTx \<Rightarrow> string \<Rightarrow> string list" where
  "profileNames tx project =
     sorted_list_of_fset (snd |`| ffilter (\<lambda>k. fst k = project) (fmdom tx))"

text \<open>Modelled from the spec: \<^verbatim>\<open>tx.ProfileList\<close>, the list of section 4.2 with full profiles.\<close>

definition tx_ProfileList :: "ClusterTx \<Rightarrow> string \<Rightarrow> error + db_Profile list" where
  "tx_ProfileList tx project =
     Inr (List.map_filter
            (\<lambda>name. case tx_ProfileGet tx project name of Inl err \<Rightarrow> None | Inr p \<Rightarrow> Some p)
            (profileNames tx project))"

text \<open>Modelled from the spec: \<^verbatim>\<open>tx.ProfileURIs\<close>, the list of section 4.2 with URIs.\<close>

definition tx_ProfileURIs :: "ClusterTx \<Rightarrow> string \<Rightarrow> error + string list" where
  "tx_ProfileURIs tx project =
     Inr (map (\<lambda>name. ''/'' @ APIVersion @ ''/profiles/'' @ name) (profileNames tx project))"

text \<open>
  Modelled from the spec: \<^verbatim>\<open>Transaction\<close> is not in the source file. A call of the
  store is atomic (section 4.2): when the body fails, nothing of it is written.
\<close>

definition Transaction ::
  "ClusterTx \<Rightarrow> (ClusterTx \<Rightarrow> error option \<times> ClusterTx) \<Rightarrow> error option \<times> ClusterTx" where
  "Transaction db f =
     (case f db of
        (None, db') \<Rightarrow> (None, db')
      | (Some err, db') \<Rightarrow> (Some err, db))"

subsection \<open>The daemon\<close>

text \<open>
  A peer of the cluster as the notifier hands it to its hook: \<^verbatim>\<open>client.UpdateProfile\<close>
  with the name, the fields and the token.
\<close>

record ContainerServer =
  UpdateProfile :: "string \<Rightarrow> ProfilePut \<Rightarrow> etag option \<Rightarrow> error option"

text \<open>
  The daemon: the cluster database, and the collaborators of section 6 as the handlers
  call them. \<open>ProjectHasProfiles\<close> is the project feature query,
  \<open>containerValidConfig\<close> and \<open>containerValidDevices\<close> the content validators (\<open>None\<close>
  when the content is valid), \<open>getContainersWithProfile\<close> the instance index,
  \<open>NewNotifier\<close> what \<^verbatim>\<open>cluster.NewNotifier\<close> returns for the policy
  \<^verbatim>\<open>cluster.NotifyAlive\<close>: an error, or the notifier, which runs a hook against the peers
  and reports an error or none. \<open>doProfileUpdateCluster\<close> is what a node does on a
  notification: the new profile is already in the database then (lines 177-179), so the
  call works on the node's instances and gives an error or none.
\<close>

record Daemon =
  cluster :: ClusterTx
  ProjectHasProfiles :: "string \<Rightarrow> error + bool"
  containerValidConfig :: "config \<Rightarrow> error option"
  containerValidDevices :: "devices \<Rightarrow> error option"
  getContainersWithProfile :: "string \<Rightarrow> string \<Rightarrow> string list"
  NewNotifier :: "error + ((ContainerServer \<Rightarrow> error option) \<Rightarrow> error option)"
  doProfileUpdateCluster :: "string \<Rightarrow> string \<Rightarrow> ProfilePut \<Rightarrow> error option"

text \<open>
  Modelled from the spec: \<^verbatim>\<open>doProfileUpdate\<close> is not in the source file. A replace
  needs config and devices that pass validation and then overwrites description, config
  and devices entirely, in one transaction (section 4.7).
\<close>

definition doProfileUpdate ::
  "Daemon \<Rightarrow> string \<Rightarrow> string \<Rightarrow> Profile \<Rightarrow> ProfilePut \<Rightarrow> error option \<times> Daemon" where
  "doProfileUpdate d project name profile req =
     (case containerValidConfig d (Config req) of
        Some err \<Rightarrow> (Some err, d)
      | None \<Rightarrow>
     (case containerValidDevices d (Devices req) of
        Some err \<Rightarrow> (Some err, d)
      | None \<Rightarrow>
     (case Transaction (cluster d) (\<lambda>tx. tx_ProfileUpdate tx project name req) of
        (err, tx') \<Rightarrow> (err, d\<lparr>cluster := tx'\<rparr>))))"

subsection \<open>The merge of a partial update\<close>

text \<open>
  Lines 272-277 and 284-289: \<^verbatim>\<open>for k, v := range profile.Config\<close> copies into the
  request's map every entry whose key the request's map does not have. \<open>rangeMap\<close> gives
  the entries the loop runs over (none for a nil map; Go fixes no order, the entries are
  taken in the order of their keys), \<open>copyMissing\<close> is the loop.
\<close>

definition rangeMap :: "(string, 'v) fmap option \<Rightarrow> (string \<times> 'v) list" where
  "rangeMap m = (case m of None \<Rightarrow> [] | Some f \<Rightarrow> sorted_list_of_fmap f)"

fun copyMissing :: "(string \<times> 'v) list \<Rightarrow> (string, 'v) fmap \<Rightarrow> (string, 'v) fmap" where
  "copyMissing [] req = req"
| "copyMissing ((k, v) # kvs) req =
     copyMissing kvs (case fmlookup req k of None \<Rightarrow> fmupd k v req | Some _ \<Rightarrow> req)"

subsection \<open>The handlers\<close>

text \<open>Lines 39-79. The transaction only reads: the daemon is returned as it was.\<close>

definition profilesGet :: "Daemon \<Rightarrow> request \<Rightarrow> response \<times> Daemon" where
  "profilesGet d r =
     (let project = projectParam r;
          recursion = IsRecursionRequest r;
          result =
            (case ProjectHasProfiles d project of
               Inl err \<Rightarrow> Inl (Wrap err ''Check project features'')
             | Inr hasProfiles \<Rightarrow>
                 (let project = (if \<not> hasProfiles then ''default'' else project) in
                  if recursion then
                    (case tx_ProfileList (cluster d) project of
                       Inl err \<Rightarrow> Inl err
                     | Inr profiles \<Rightarrow> Inr (Profiles (map ProfileToAPI profiles)))
                  else
                    (case tx_ProfileURIs (cluster d) project of
                       Inl err \<Rightarrow> Inl err
                     | Inr uris \<Rightarrow> Inr (URIs uris))))
      in case result of
           Inl err \<Rightarrow> (SmartError (Some err), d)
         | Inr result \<Rightarrow> (SyncResponse True result, d))"

text \<open>Lines 81-134.\<close>

definition profilesPost :: "Daemon \<Rightarrow> request \<Rightarrow> response \<times> Daemon" where
  "profilesPost d r =
     (let project = projectParam r in
      case DecodeProfilesPost r of
        Inl err \<Rightarrow> (BadRequest err, d)
      | Inr req \<Rightarrow>
      if Profile.Name req = [] then (BadRequest (Errorf ''No name provided'' []), d)
      else
      (case cluster_ProfileGet (cluster d) project (Profile.Name req) of
        Inr profile \<Rightarrow> (BadRequest (Errorf ''The profile already exists'' []), d)
      | Inl _ \<Rightarrow>
      if CHR ''/'' \<in> set (Profile.Name req) then
        (BadRequest (Errorf ''Profile names may not contain slashes'' []), d)
      else if Profile.Name req \<in> set [''.'', ''..''] then
        (BadRequest (Errorf (''Invalid profile name '%s'' @ [CHR 0x27]) [ArgS (Profile.Name req)]), d)
      else
      (case containerValidConfig d (Config req) of
        Some err \<Rightarrow> (BadRequest err, d)
      | None \<Rightarrow>
      (case containerValidDevices d (Devices req) of
        Some err \<Rightarrow> (BadRequest err, d)
      | None \<Rightarrow>
      (case Transaction (cluster d) (\<lambda>tx.
              tx_ProfileCreate tx
                \<lparr>Config = Config req, Description = Description req, Devices = Devices req,
                 Name = Profile.Name req, Project = project\<rparr>) of
        (Some err, tx') \<Rightarrow>
          (SmartError (Some (Errorf ''Error inserting %s into database: %s''
                               [ArgS (Profile.Name req), ArgE err])),
           d\<lparr>cluster := tx'\<rparr>)
      | (None, tx') \<Rightarrow>
          (SyncResponseLocation True (''/'' @ APIVersion @ ''/profiles/'' @ Profile.Name req),
           d\<lparr>cluster := tx'\<rparr>))))))"

text \<open>Lines 136-167.\<close>

definition profileGet :: "Daemon \<Rightarrow> request \<Rightarrow> response \<times> Daemon" where
  "profileGet d r =
     (let project = projectParam r;
          name = vars_name r;
          result =
            (case ProjectHasProfiles d project of
               Inl err \<Rightarrow> Inl (Wrap err ''Check project features'')
             | Inr hasProfiles \<Rightarrow>
                 (let project = (if \<not> hasProfiles then ''default'' else project) in
                  case tx_ProfileGet (cluster d) project name of
                    Inl err \<Rightarrow> Inl (Wrap err ''Fetch profile'')
                  | Inr profile \<Rightarrow> Inr (ProfileToAPI profile)))
      in case result of
           Inl err \<Rightarrow> (SmartError (Some err), d)
         | Inr resp \<Rightarrow>
             (let etag = (Config resp, Description resp, Devices resp) in
              (SyncResponseETag True resp etag, d)))"

text \<open>
  Lines 169-224. The error of the notifier is a variable of the inner block: after the
  block, line 223 returns the error of \<^verbatim>\<open>doProfileUpdate\<close>.
\<close>

definition profilePut :: "Daemon \<Rightarrow> request \<Rightarrow> response \<times> Daemon" where
  "profilePut d r =
     (let project = projectParam r;
          name = vars_name r in
      if isClusterNotification r then
        (case DecodeProfilePut r of
           Inl err \<Rightarrow> (BadRequest err, d)
         | Inr old \<Rightarrow> (SmartError (doProfileUpdateCluster d project name old), d))
      else
      (case cluster_ProfileGet (cluster d) project name of
        Inl err \<Rightarrow>
          (SmartError (Some (Errorf (''Failed to retrieve profile='%s'' @ [CHR 0x27]) [ArgS name])), d)
      | Inr profile \<Rightarrow>
      (let etag = (Config profile, Description profile, Devices profile) in
       case EtagCheck r etag of
        Some err \<Rightarrow> (PreconditionFailed err, d)
      | None \<Rightarrow>
      (case DecodeProfilePut r of
        Inl err \<Rightarrow> (BadRequest err, d)
      | Inr req \<Rightarrow>
      (case doProfileUpdate d project name profile req of
        (err, d') \<Rightarrow>
          if err = None \<and> \<not> isClusterNotification r then
            (case NewNotifier d' of
               Inl err \<Rightarrow> (SmartError (Some err), d')
             | Inr notifier \<Rightarrow>
                 (case notifier (\<lambda>client.
                          UpdateProfile client name (ProfilePut_of profile) None) of
                    Some err \<Rightarrow> (SmartError (Some err), d')
                  | None \<Rightarrow> (SmartError err, d')))
          else (SmartError err, d'))))))"

text \<open>
  Lines 262-290 of \<^verbatim>\<open>profilePatch\<close>, as a function of their own: the request document
  \<^verbatim>\<open>req\<close> completed from the previous profile. The description is the previous one when
  \<^verbatim>\<open>GetString\<close> fails on the untyped document; a nil map is replaced by the previous
  map, any other map receives the previous entries it lacks.
\<close>

definition patchMerge :: "Profile \<Rightarrow> Jmap \<Rightarrow> ProfilePut \<Rightarrow> ProfilePut" where
  "patchMerge profile reqRaw req =
     (let req =
            (case GetString reqRaw ''description'' of
               Inl err \<Rightarrow> req\<lparr>Description := Description profile\<rparr>
             | Inr _ \<Rightarrow> req);
          req =
            (case Config req of
               None \<Rightarrow> req\<lparr>Config := Config profile\<rparr>
             | Some reqConfig \<Rightarrow>
                 req\<lparr>Config := Some (copyMissing (rangeMap (Config profile)) reqConfig)\<rparr>);
          req =
            (case Devices req of
               None \<Rightarrow> req\<lparr>Devices := Devices profile\<rparr>
             | Some reqDevices \<Rightarrow>
                 req\<lparr>Devices := Some (copyMissing (rangeMap (Devices profile)) reqDevices)\<rparr>)
      in req)"

text \<open>Lines 226-293; lines 262-290 are \<open>patchMerge\<close>.\<close>

definition profilePatch :: "Daemon \<Rightarrow> request \<Rightarrow> response \<times> Daemon" where
  "profilePatch d r =
     (let project = projectParam r;
          name = vars_name r in
      case cluster_ProfileGet (cluster d) project name of
        Inl err \<Rightarrow>
          (SmartError (Some (Errorf (''Failed to retrieve profile='%s'' @ [CHR 0x27]) [ArgS name])), d)
      | Inr profile \<Rightarrow>
      (let etag = (Config profile, Description profile, Devices profile) in
       case EtagCheck r etag of
        Some err \<Rightarrow> (PreconditionFailed err, d)
      | None \<Rightarrow>
      (case ReadAll r of
        Some err \<Rightarrow> (InternalError err, d)
      | None \<Rightarrow>
      (case DecodeJmap r of
        Inl err \<Rightarrow> (BadRequest err, d)
      | Inr reqRaw \<Rightarrow>
      (case DecodeProfilePut r of
        Inl err \<Rightarrow> (BadRequest err, d)
      | Inr req \<Rightarrow>
      (let req = patchMerge profile reqRaw req in
       case doProfileUpdate d project name profile req of
         (err, d') \<Rightarrow> (SmartError err, d')))))))"

text \<open>Lines 296-336.\<close>

definition profilePost :: "Daemon \<Rightarrow> request \<Rightarrow> response \<times> Daemon" where
  "profilePost d r =
     (let project = projectParam r;
          name = vars_name r in
      if name = ''default'' then
        (Forbidden (Errorf ''The 'default' profile cannot be renamed'' []), d)
      else
      (case DecodeProfilePost r of
        Inl err \<Rightarrow> (BadRequest err, d)
      | Inr req \<Rightarrow>
      if ProfilePost.Name req = [] then (BadRequest (Errorf ''No name provided'' []), d)
      else if CHR ''/'' \<in> set (ProfilePost.Name req) then
        (BadRequest (Errorf ''Profile names may not contain slashes'' []), d)
      else if ProfilePost.Name req \<in> set [''.'', ''..''] then
        (BadRequest
           (Errorf (''Invalid profile name '%s'' @ [CHR 0x27]) [ArgS (ProfilePost.Name req)]), d)
      else
      (case Transaction (cluster d) (\<lambda>tx.
              case tx_ProfileGet tx project (ProfilePost.Name req) of
                Inr _ \<Rightarrow>
                  (Some (Errorf ''Name '%s' already in use'' [ArgS (ProfilePost.Name req)]), tx)
              | Inl _ \<Rightarrow> tx_ProfileRename tx project name (ProfilePost.Name req)) of
        (Some err, tx') \<Rightarrow> (SmartError (Some err), d\<lparr>cluster := tx'\<rparr>)
      | (None, tx') \<Rightarrow>
          (SyncResponseLocation True
             (''/'' @ APIVersion @ ''/profiles/'' @ ProfilePost.Name req),
           d\<lparr>cluster := tx'\<rparr>))))"

text \<open>Lines 339-365.\<close>

definition profileDelete :: "Daemon \<Rightarrow> request \<Rightarrow> response \<times> Daemon" where
  "profileDelete d r =
     (let project = projectParam r;
          name = vars_name r in
      if name = ''default'' then
        (Forbidden (Errorf ''The 'default' profile cannot be deleted'' []), d)
      else
      (case cluster_ProfileGet (cluster d) project name of
        Inl err \<Rightarrow> (SmartError (Some err), d)
      | Inr _ \<Rightarrow>
      (let clist = getContainersWithProfile d project name in
       if length clist \<noteq> 0 then (BadRequest (Errorf ''Profile is currently in use'' []), d)
       else
       (case Transaction (cluster d) (\<lambda>tx. tx_ProfileDelete tx project name) of
         (Some err, tx') \<Rightarrow> (SmartError (Some err), d\<lparr>cluster := tx'\<rparr>)
       | (None, tx') \<Rightarrow> (EmptySyncResponse, d\<lparr>cluster := tx'\<rparr>)))))"

subsection \<open>A daemon and a request to evaluate the handlers on\<close>

text \<open>
  The profile \<^verbatim>\<open>web\<close> of the namespace \<^verbatim>\<open>default\<close>, with one config key.
\<close>

definition webProfile :: ProfilePut where
  "webProfile =
     \<lparr>Config = Some (fmupd ''limits.cpu'' ''2'' fmempty),
      Description = ''web servers'',
      Devices = Some fmempty\<rparr>"

text \<open>
  A daemon whose database holds that profile only. The namespace \<^verbatim>\<open>default\<close> has the
  profiles capability and no other namespace has it; every content is valid, no instance
  uses a profile, the notifier has no peer to run its hook against.
\<close>

definition exampleDaemon :: Daemon where
  "exampleDaemon =
     \<lparr>cluster = fmupd (''default'', ''web'') webProfile fmempty,
      ProjectHasProfiles = (\<lambda>project. Inr (project = ''default'')),
      containerValidConfig = (\<lambda>config. None),
      containerValidDevices = (\<lambda>devices. None),
      getContainersWithProfile = (\<lambda>project name. []),
      NewNotifier = Inr (\<lambda>hook. None),
      doProfileUpdateCluster = (\<lambda>project name old. None)\<rparr>"

text \<open>
  A client request on that profile that carries no token and whose body is the empty
  JSON object: every decoder gives the zero value of its type.
\<close>

definition emptyRequest :: request where
  "emptyRequest =
     \<lparr>projectParam = ''default'',
      vars_name = ''web'',
      IsRecursionRequest = False,
      IfMatch = None,
      isClusterNotification = False,
      ReadAll = None,
      DecodeJmap = Inr Map.empty,
      DecodeProfilePut = Inr \<lparr>Config = None, Description = [], Devices = None\<rparr>,
      DecodeProfilesPost = Inr \<lparr>Config = None, Description = [], Devices = None, Name = []\<rparr>,
      DecodeProfilePost = Inr \<lparr>ProfilePost.Name = []\<rparr>\<rparr>"

text \<open>A token that is no fingerprint of \<open>webProfile\<close>.\<close>

definition staleToken :: etag where
  "staleToken = Etag None ''stale'' None"

text \<open>A peer that answers every update with an error.\<close>

definition failingPeer :: ContainerServer where
  "failingPeer = \<lparr>UpdateProfile = (\<lambda>name put etag. Some (Errorf ''peer failed'' []))\<rparr>"

text \<open>A rename of \<^verbatim>\<open>web\<close> to \<^verbatim>\<open>db\<close>, and a daemon where a profile \<^verbatim>\<open>db\<close> exists.\<close>

definition renameRequest :: request where
  "renameRequest = emptyRequest\<lparr>DecodeProfilePost := Inr \<lparr>ProfilePost.Name = ''db''\<rparr>\<rparr>"

definition twoProfilesDaemon :: Daemon where
  "twoProfilesDaemon =
     exampleDaemon\<lparr>cluster := fmupd (''default'', ''db'') webProfile (cluster exampleDaemon)\<rparr>"

text \<open>
  The fingerprint of \<^verbatim>\<open>web\<close>; requests on \<^verbatim>\<open>web\<close> that carry the stale token and the
  fingerprint; a cluster notification that carries the stale token.
\<close>

definition webToken :: etag where
  "webToken = EtagHash (Config webProfile, Description webProfile, Devices webProfile)"

definition staleRequest :: request where
  "staleRequest = emptyRequest\<lparr>IfMatch := Some staleToken\<rparr>"

definition freshRequest :: request where
  "freshRequest = emptyRequest\<lparr>IfMatch := Some webToken\<rparr>"

definition notificationRequest :: request where
  "notificationRequest = staleRequest\<lparr>isClusterNotification := True\<rparr>"

text \<open>
  Patch requests on \<^verbatim>\<open>web\<close>: one whose body has \<^verbatim>\<open>config\<close> as the empty object and
  nothing else, one whose body has \<^verbatim>\<open>description\<close> as the empty string and nothing
  else.
\<close>

definition emptyConfigPatch :: request where
  "emptyConfigPatch =
     emptyRequest
       \<lparr>DecodeJmap := Inr [''config'' \<mapsto> JOther],
        DecodeProfilePut := Inr \<lparr>Config = Some fmempty, Description = [], Devices = None\<rparr>\<rparr>"

definition emptyDescriptionPatch :: request where
  "emptyDescriptionPatch = emptyRequest\<lparr>DecodeJmap := Inr [''description'' \<mapsto> JString []]\<rparr>"

text \<open>
  A replace of \<^verbatim>\<open>web\<close> by a client, and a daemon whose notifier runs the hook against
  the failing peer and reports its error.
\<close>

definition newFields :: ProfilePut where
  "newFields = \<lparr>Config = Some fmempty, Description = ''new'', Devices = Some fmempty\<rparr>"

definition replaceRequest :: request where
  "replaceRequest = emptyRequest\<lparr>DecodeProfilePut := Inr newFields\<rparr>"

definition failingPeerDaemon :: Daemon where
  "failingPeerDaemon = exampleDaemon\<lparr>NewNotifier := Inr (\<lambda>hook. hook failingPeer)\<rparr>"

text \<open>
  A create of the profile \<^verbatim>\<open>cache\<close> in the namespace \<^verbatim>\<open>p1\<close>, which has no profiles
  capability in \<open>exampleDaemon\<close>.
\<close>

definition createInP1 :: request where
  "createInP1 =
     emptyRequest
       \<lparr>projectParam := ''p1'',
        DecodeProfilesPost :=
          Inr \<lparr>Config = None, Description = ''a cache'', Devices = None, Name = ''cache''\<rparr>\<rparr>"

text \<open>
  Patch requests on \<^verbatim>\<open>web\<close> whose body has \<^verbatim>\<open>description\<close> and nothing else: as the
  string "edge cache", and as \<^verbatim>\<open>null\<close>. For \<^verbatim>\<open>null\<close> the untyped document has the key
  with a value that is not a string, and the typed decoder leaves the description at its
  zero value.
\<close>

definition descriptionPatch :: request where
  "descriptionPatch =
     emptyRequest
       \<lparr>DecodeJmap := Inr [''description'' \<mapsto> JString ''edge cache''],
        DecodeProfilePut := Inr \<lparr>Config = None, Description = ''edge cache'', Devices = None\<rparr>\<rparr>"

definition nullDescriptionPatch :: request where
  "nullDescriptionPatch = emptyRequest\<lparr>DecodeJmap := Inr [''description'' \<mapsto> JOther]\<rparr>"

text \<open>
  Variants of \<open>webProfile\<close> that differ from it in one field each, the profile with a
  config and devices given as lists of entries, the daemon whose database holds \<^verbatim>\<open>web\<close>
  with given fields, and \<^verbatim>\<open>web\<close> with given fields as an \<^verbatim>\<open>api.Profile\<close>.
\<close>

definition otherConfig :: ProfilePut where
  "otherConfig = webProfile\<lparr>Config := Some (fmupd ''limits.cpu'' ''4'' fmempty)\<rparr>"

definition otherDescription :: ProfilePut where
  "otherDescription = webProfile\<lparr>Description := ''database servers''\<rparr>"

definition otherDevices :: ProfilePut where
  "otherDevices =
     webProfile\<lparr>Devices := Some (fmupd ''root'' (fmupd ''path'' ''/'' fmempty) fmempty)\<rparr>"

definition listedProfile ::
  "(string \<times> string) list \<Rightarrow> (string \<times> (string, string) fmap) list \<Rightarrow> ProfilePut" where
  "listedProfile xs us =
     webProfile\<lparr>Config := Some (fmap_of_list xs), Devices := Some (fmap_of_list us)\<rparr>"

definition daemonWith :: "ProfilePut \<Rightarrow> Daemon" where
  "daemonWith p = exampleDaemon\<lparr>cluster := fmupd (''default'', ''web'') p fmempty\<rparr>"

definition webWith :: "ProfilePut \<Rightarrow> Profile" where
  "webWith p =
     \<lparr>Config = Config p, Description = Description p, Devices = Devices p, Name = ''web''\<rparr>"

section \<open>Properties\<close>

subsection \<open>The store, the errors and the fingerprint\<close>

lemma SmartError_None: "SmartError None = EmptySyncResponse"
  by (simp add: SmartError_def)

lemma SmartError_Errorf: "SmartError (Some (Errorf f as)) = InternalError (Errorf f as)"
  by (simp add: SmartError_def)

lemma SmartError_Empty: "SmartError err = EmptySyncResponse \<longleftrightarrow> err = None"
  by (auto simp: SmartError_def split: option.splits error.splits)

lemma SmartError_not_PreconditionFailed: "\<not> is_PreconditionFailed (SmartError err)"
  by (auto simp: SmartError_def split: option.splits error.splits)

lemma cluster_ProfileGet_Some:
  "fmlookup tx (project, name) = Some p \<Longrightarrow>
     cluster_ProfileGet tx project name =
       Inr \<lparr>Config = Config p, Description = Description p, Devices = Devices p, Name = name\<rparr>"
  by (simp add: cluster_ProfileGet_def tx_ProfileGet_def ProfileToAPI_def)

lemma cluster_ProfileGet_None:
  "fmlookup tx (project, name) = None \<Longrightarrow> cluster_ProfileGet tx project name = Inl ErrNotFound"
  by (simp add: cluster_ProfileGet_def tx_ProfileGet_def)

lemma doProfileUpdate_cases:
  assumes "fmlookup (cluster d) (project, name) = Some p"
  shows "doProfileUpdate d project name profile req =
           (None, d\<lparr>cluster := fmupd (project, name) req (cluster d)\<rparr>)
       \<or> (\<exists>e. doProfileUpdate d project name profile req = (Some e, d))"
  using assms
  by (simp add: doProfileUpdate_def Transaction_def tx_ProfileUpdate_def split: option.splits)

lemma doProfileUpdate_None:
  assumes "doProfileUpdate d project name profile req = (None, d')"
  shows "d' = d\<lparr>cluster := fmupd (project, name) req (cluster d)\<rparr>"
  using assms
  by (auto simp: doProfileUpdate_def Transaction_def tx_ProfileUpdate_def split: option.splits)

text \<open>A sorted listing determines its map, so the fingerprint determines the three fields.\<close>

lemma sorted_list_of_fmap_inj:
  assumes "sorted_list_of_fmap m = sorted_list_of_fmap n"
  shows "m = n"
proof -
  have "fmlookup m = map_of (sorted_list_of_fmap m)" by simp
  also have "\<dots> = fmlookup n" using assms by simp
  finally show ?thesis by (simp add: fmap_ext)
qed

lemma fmmap_inj:
  assumes "inj f" and "fmmap f m = fmmap f n"
  shows "m = n"
proof (rule fmap_ext)
  fix x
  have "map_option f (fmlookup m x) = map_option f (fmlookup n x)"
    using assms(2) by (metis fmlookup_map)
  then show "fmlookup m x = fmlookup n x"
    using assms(1) by (meson injD option.inj_map)
qed

lemma devices_listing_inj:
  fixes m n :: "(string, (string, string) fmap) fmap"
  assumes "sorted_list_of_fmap (fmmap sorted_list_of_fmap m) =
           sorted_list_of_fmap (fmmap sorted_list_of_fmap n)"
  shows "m = n"
proof -
  have "inj (sorted_list_of_fmap :: (string, string) fmap \<Rightarrow> _)"
    by (rule injI) (rule sorted_list_of_fmap_inj)
  moreover have "fmmap sorted_list_of_fmap m = fmmap sorted_list_of_fmap n"
    using assms by (rule sorted_list_of_fmap_inj)
  ultimately show ?thesis by (rule fmmap_inj)
qed

lemma EtagHash_inj:
  "EtagHash (c, d, v) = EtagHash (c', d', v') \<longleftrightarrow> c = c' \<and> d = d' \<and> v = v'"
proof
  assume h: "EtagHash (c, d, v) = EtagHash (c', d', v')"
  have "c = c'"
    using h by (cases c; cases c') (auto simp: EtagHash_def dest: sorted_list_of_fmap_inj)
  moreover have "d = d'"
    using h by (simp add: EtagHash_def)
  moreover have "v = v'"
    using h by (cases v; cases v') (auto simp: EtagHash_def dest: devices_listing_inj)
  ultimately show "c = c' \<and> d = d' \<and> v = v'" by simp
qed simp

lemma EtagCheck_mismatch:
  "IfMatch r = Some t \<Longrightarrow> t \<noteq> EtagHash data \<Longrightarrow> EtagCheck r data = Some ErrMismatch"
  by (auto simp: EtagCheck_def)

lemma EtagCheck_match:
  "IfMatch r = Some (EtagHash data) \<Longrightarrow> EtagCheck r data = None"
  by (simp add: EtagCheck_def)

lemma staleToken_webProfile:
  "staleToken \<noteq> EtagHash (Config webProfile, Description webProfile, Devices webProfile)"
  by (simp add: staleToken_def EtagHash_def webProfile_def)

subsection \<open>Rename and delete of the default profile\<close>

text \<open>
  C10. For every daemon and every request, rename and delete of the profile named
  \<^verbatim>\<open>default\<close> answer Forbidden and leave the daemon as it was: the answer depends neither
  on the store (the profile may be absent) nor on the body (it may be malformed), so
  Forbidden comes before NotFound and BadRequest.
\<close>

theorem default_profile_forbidden:
  "vars_name r = ''default'' \<Longrightarrow>
     profilePost d r = (Forbidden (Errorf ''The 'default' profile cannot be renamed'' []), d) \<and>
     profileDelete d r = (Forbidden (Errorf ''The 'default' profile cannot be deleted'' []), d)"
  by (simp add: profilePost_def profileDelete_def)

text \<open>
  The witness: a daemon with no profile at all and a request whose body does not decode.
\<close>

theorem default_profile_forbidden_witness:
  "vars_name (emptyRequest\<lparr>vars_name := ''default'',
                           DecodeProfilePost := Inl (Errorf ''unexpected EOF'' [])\<rparr>) = ''default''
   \<and> fmlookup (cluster (exampleDaemon\<lparr>cluster := fmempty\<rparr>)) (''default'', ''default'') = None
   \<and> profilePost (exampleDaemon\<lparr>cluster := fmempty\<rparr>)
        (emptyRequest\<lparr>vars_name := ''default'',
                      DecodeProfilePost := Inl (Errorf ''unexpected EOF'' [])\<rparr>) =
       (Forbidden (Errorf ''The 'default' profile cannot be renamed'' []),
        exampleDaemon\<lparr>cluster := fmempty\<rparr>)
   \<and> profileDelete (exampleDaemon\<lparr>cluster := fmempty\<rparr>)
        (emptyRequest\<lparr>vars_name := ''default'',
                      DecodeProfilePost := Inl (Errorf ''unexpected EOF'' [])\<rparr>) =
       (Forbidden (Errorf ''The 'default' profile cannot be deleted'' []),
        exampleDaemon\<lparr>cluster := fmempty\<rparr>)"
  using default_profile_forbidden
          [of "emptyRequest\<lparr>vars_name := ''default'',
                            DecodeProfilePost := Inl (Errorf ''unexpected EOF'' [])\<rparr>"
              "exampleDaemon\<lparr>cluster := fmempty\<rparr>"]
  by simp

subsection \<open>Create under a name that is in use\<close>

text \<open>
  C6, as the code has it. A create request whose name is used by a live profile of its
  namespace is answered with BadRequest (line 95), and nothing is inserted: the daemon is
  returned as it was. The namespace is one with the profiles capability, where the
  requested namespace is the effective one.
\<close>

theorem create_existing_name:
  assumes "DecodeProfilesPost r = Inr req"
      and "ProjectHasProfiles d (projectParam r) = Inr True"
      and "fmlookup (cluster d) (projectParam r, Profile.Name req) = Some p"
  shows "profilesPost d r =
           (BadRequest (if Profile.Name req = [] then Errorf ''No name provided'' []
                        else Errorf ''The profile already exists'' []), d)"
  using assms(1,3) by (simp add: profilesPost_def cluster_ProfileGet_Some)

theorem create_existing_name_witness:
  "DecodeProfilesPost
     (emptyRequest\<lparr>DecodeProfilesPost := Inr \<lparr>Config = None, Description = [], Devices = None, Name = ''web''\<rparr>\<rparr>) =
     Inr \<lparr>Config = None, Description = [], Devices = None, Name = ''web''\<rparr>
   \<and> ProjectHasProfiles exampleDaemon ''default'' = Inr True
   \<and> fmlookup (cluster exampleDaemon) (''default'', ''web'') = Some webProfile
   \<and> profilesPost exampleDaemon
        (emptyRequest\<lparr>DecodeProfilesPost := Inr \<lparr>Config = None, Description = [], Devices = None, Name = ''web''\<rparr>\<rparr>) =
       (BadRequest (Errorf ''The profile already exists'' []), exampleDaemon)"
  using create_existing_name
          [of "emptyRequest\<lparr>DecodeProfilesPost := Inr \<lparr>Config = None, Description = [], Devices = None, Name = ''web''\<rparr>\<rparr>"
              "\<lparr>Config = None, Description = [], Devices = None, Name = ''web''\<rparr>" exampleDaemon webProfile]
  by (simp add: emptyRequest_def exampleDaemon_def)

text \<open>
  The claim as the specification states it fails: the response to a create of
  \<^verbatim>\<open>web\<close>, which exists, is BadRequest and not AlreadyExists.
\<close>

theorem create_existing_name_counterexample:
  "fmlookup (cluster exampleDaemon) (''default'', ''web'') = Some webProfile
   \<and> fst (profilesPost exampleDaemon
        (emptyRequest\<lparr>DecodeProfilesPost :=
           Inr \<lparr>Config = None, Description = [], Devices = None, Name = ''web''\<rparr>\<rparr>)) =
       BadRequest (Errorf ''The profile already exists'' [])
   \<and> \<not> is_AlreadyExists (fst (profilesPost exampleDaemon
        (emptyRequest\<lparr>DecodeProfilesPost :=
           Inr \<lparr>Config = None, Description = [], Devices = None, Name = ''web''\<rparr>\<rparr>)))"
  by (simp add: profilesPost_def Let_def emptyRequest_def exampleDaemon_def cluster_ProfileGet_Some)

subsection \<open>Delete of a profile that instances use\<close>

text \<open>
  C7, as the code has it. A delete request on an existing profile that is not the default
  one: when the instance index gives at least one instance, the response is BadRequest
  with the error "Profile is currently in use" (line 354) and the daemon is as it was, so
  the profile remains; when it gives none, the response is the empty success and the
  profile is removed from the store.
\<close>

theorem delete_referenced_profile:
  assumes "vars_name r \<noteq> ''default''"
      and "fmlookup (cluster d) (projectParam r, vars_name r) = Some p"
  shows "(getContainersWithProfile d (projectParam r) (vars_name r) \<noteq> [] \<longrightarrow>
            profileDelete d r = (BadRequest (Errorf ''Profile is currently in use'' []), d))
       \<and> (getContainersWithProfile d (projectParam r) (vars_name r) = [] \<longrightarrow>
            profileDelete d r =
              (EmptySyncResponse,
               d\<lparr>cluster := fmdrop (projectParam r, vars_name r) (cluster d)\<rparr>)
          \<and> fmlookup (cluster (snd (profileDelete d r))) (projectParam r, vars_name r) = None)"
  using assms
  by (simp add: profileDelete_def cluster_ProfileGet_Some Transaction_def tx_ProfileDelete_def)

text \<open>
  The witness: the profile \<^verbatim>\<open>web\<close>, first with the instance \<^verbatim>\<open>c1\<close> using it, then
  with no instance.
\<close>

theorem delete_referenced_profile_witness:
  "vars_name emptyRequest \<noteq> ''default''
   \<and> fmlookup (cluster exampleDaemon) (projectParam emptyRequest, vars_name emptyRequest) =
       Some webProfile
   \<and> getContainersWithProfile
        (exampleDaemon\<lparr>getContainersWithProfile := (\<lambda>project name. [''c1''])\<rparr>)
        ''default'' ''web'' \<noteq> []
   \<and> profileDelete
        (exampleDaemon\<lparr>getContainersWithProfile := (\<lambda>project name. [''c1''])\<rparr>)
        emptyRequest =
       (BadRequest (Errorf ''Profile is currently in use'' []),
        exampleDaemon\<lparr>getContainersWithProfile := (\<lambda>project name. [''c1''])\<rparr>)
   \<and> getContainersWithProfile exampleDaemon ''default'' ''web'' = []
   \<and> fst (profileDelete exampleDaemon emptyRequest) = EmptySyncResponse
   \<and> fmlookup (cluster (snd (profileDelete exampleDaemon emptyRequest))) (''default'', ''web'') =
       None"
  using delete_referenced_profile
          [of emptyRequest
              "exampleDaemon\<lparr>getContainersWithProfile := (\<lambda>project name. [''c1''])\<rparr>"
              webProfile]
        delete_referenced_profile [of emptyRequest exampleDaemon webProfile]
  by (simp add: emptyRequest_def exampleDaemon_def)

text \<open>
  The claim as the specification states it fails: the response to a delete of a profile
  that an instance uses is BadRequest and not InUse.
\<close>

theorem delete_referenced_profile_counterexample:
  "getContainersWithProfile
     (exampleDaemon\<lparr>getContainersWithProfile := (\<lambda>project name. [''c1''])\<rparr>)
     ''default'' ''web'' = [''c1'']
   \<and> fst (profileDelete
        (exampleDaemon\<lparr>getContainersWithProfile := (\<lambda>project name. [''c1''])\<rparr>)
        emptyRequest) =
       BadRequest (Errorf ''Profile is currently in use'' [])
   \<and> \<not> is_InUse (fst (profileDelete
        (exampleDaemon\<lparr>getContainersWithProfile := (\<lambda>project name. [''c1''])\<rparr>)
        emptyRequest))"
  by (simp add: profileDelete_def Let_def emptyRequest_def exampleDaemon_def
        cluster_ProfileGet_Some)

subsection \<open>Rename\<close>

lemma rename_transaction:
  assumes "fmlookup tx (project, name) = Some p"
  shows "Transaction tx (\<lambda>tx.
              case tx_ProfileGet tx project to of
                Inr _ \<Rightarrow> (Some (Errorf ''Name '%s' already in use'' [ArgS to]), tx)
              | Inl _ \<Rightarrow> tx_ProfileRename tx project name to) =
         (case fmlookup tx (project, to) of
            Some _ \<Rightarrow> (Some (Errorf ''Name '%s' already in use'' [ArgS to]), tx)
          | None \<Rightarrow> (None, fmupd (project, to) p (fmdrop (project, name) tx)))"
  using assms
  by (simp add: Transaction_def tx_ProfileGet_def tx_ProfileRename_def split: option.splits)

lemma profilePost_valid:
  assumes "vars_name r \<noteq> ''default''"
      and "fmlookup (cluster d) (projectParam r, vars_name r) = Some p"
      and "DecodeProfilePost r = Inr req"
      and "ProfilePost.Name req \<noteq> []"
      and "CHR ''/'' \<notin> set (ProfilePost.Name req)"
      and "ProfilePost.Name req \<notin> {''.'', ''..''}"
  shows "profilePost d r =
          (case fmlookup (cluster d) (projectParam r, ProfilePost.Name req) of
             Some _ \<Rightarrow>
               (InternalError (Errorf ''Name '%s' already in use'' [ArgS (ProfilePost.Name req)]), d)
           | None \<Rightarrow>
               (SyncResponseLocation True
                  (''/'' @ APIVersion @ ''/profiles/'' @ ProfilePost.Name req),
                d\<lparr>cluster := fmupd (projectParam r, ProfilePost.Name req) p
                                 (fmdrop (projectParam r, vars_name r) (cluster d))\<rparr>))"
  using assms
  by (simp add: profilePost_def Let_def rename_transaction [OF assms(2)] SmartError_Errorf
        split: option.splits)

lemma profileGet_found:
  assumes "ProjectHasProfiles d (projectParam r) = Inr True"
      and "fmlookup (cluster d) (projectParam r, vars_name r) = Some p"
  shows "profileGet d r =
           (SyncETag True
              \<lparr>Config = Config p, Description = Description p, Devices = Devices p,
               Name = vars_name r\<rparr>
              (EtagHash (Config p, Description p, Devices p)), d)"
  using assms
  by (simp add: profileGet_def Let_def tx_ProfileGet_def ProfileToAPI_def SyncResponseETag_def)

lemma profileGet_missing:
  assumes "ProjectHasProfiles d (projectParam r) = Inr True"
      and "fmlookup (cluster d) (projectParam r, vars_name r) = None"
  shows "profileGet d r = (NotFound, d)"
  using assms
  by (simp add: profileGet_def Let_def tx_ProfileGet_def SmartError_def)

text \<open>
  C8, as the code has it. A rename request on an existing profile that is not the default
  one, to a new name that passes the checks of lines 310-320 (not empty, no slash, not
  \<^verbatim>\<open>.\<close> or \<^verbatim>\<open>..\<close>). When a profile exists at the new name, the error of line 326 has no
  cause that \<^verbatim>\<open>SmartError\<close> knows: the response is an internal error, and the daemon is as
  it was. When the new name is unused the rename succeeds; in a namespace with the
  profiles capability a Get on the old name then answers NotFound and a Get on the new
  name gives the config, description and devices of the profile, unchanged.
\<close>

theorem rename_profile:
  assumes "vars_name r \<noteq> ''default''"
      and "fmlookup (cluster d) (projectParam r, vars_name r) = Some p"
      and "DecodeProfilePost r = Inr req"
      and "ProfilePost.Name req \<noteq> []"
      and "CHR ''/'' \<notin> set (ProfilePost.Name req)"
      and "ProfilePost.Name req \<notin> {''.'', ''..''}"
  shows "(fmlookup (cluster d) (projectParam r, ProfilePost.Name req) \<noteq> None \<longrightarrow>
            profilePost d r =
              (InternalError (Errorf ''Name '%s' already in use'' [ArgS (ProfilePost.Name req)]), d))
       \<and> (fmlookup (cluster d) (projectParam r, ProfilePost.Name req) = None \<longrightarrow>
            fst (profilePost d r) =
              SyncResponseLocation True (''/'' @ APIVersion @ ''/profiles/'' @ ProfilePost.Name req)
          \<and> (ProjectHasProfiles d (projectParam r) = Inr True \<longrightarrow>
                fst (profileGet (snd (profilePost d r)) r) = NotFound
              \<and> fst (profileGet (snd (profilePost d r)) (r\<lparr>vars_name := ProfilePost.Name req\<rparr>)) =
                  SyncETag True
                    \<lparr>Config = Config p, Description = Description p, Devices = Devices p,
                     Name = ProfilePost.Name req\<rparr>
                    (EtagHash (Config p, Description p, Devices p))))"
proof (intro conjI impI)
  assume "fmlookup (cluster d) (projectParam r, ProfilePost.Name req) \<noteq> None"
  then show "profilePost d r =
      (InternalError (Errorf ''Name '%s' already in use'' [ArgS (ProfilePost.Name req)]), d)"
    using profilePost_valid [OF assms] by auto
next
  assume free: "fmlookup (cluster d) (projectParam r, ProfilePost.Name req) = None"
  let ?d' = "d\<lparr>cluster := fmupd (projectParam r, ProfilePost.Name req) p
                                 (fmdrop (projectParam r, vars_name r) (cluster d))\<rparr>"
  have post: "profilePost d r =
      (SyncResponseLocation True (''/'' @ APIVersion @ ''/profiles/'' @ ProfilePost.Name req), ?d')"
    using profilePost_valid [OF assms] free by simp
  then show "fst (profilePost d r) =
      SyncResponseLocation True (''/'' @ APIVersion @ ''/profiles/'' @ ProfilePost.Name req)"
    by simp
  have neq: "ProfilePost.Name req \<noteq> vars_name r"
    using free assms(2) by auto
  assume cap: "ProjectHasProfiles d (projectParam r) = Inr True"
  show "fst (profileGet (snd (profilePost d r)) r) = NotFound"
    using neq cap by (simp add: post profileGet_missing)
  show "fst (profileGet (snd (profilePost d r)) (r\<lparr>vars_name := ProfilePost.Name req\<rparr>)) =
          SyncETag True
            \<lparr>Config = Config p, Description = Description p, Devices = Devices p,
             Name = ProfilePost.Name req\<rparr>
            (EtagHash (Config p, Description p, Devices p))"
    using cap by (simp add: post profileGet_found)
qed

text \<open>
  The witness: \<^verbatim>\<open>web\<close> renamed to \<^verbatim>\<open>db\<close>, first when a profile \<^verbatim>\<open>db\<close> exists, then
  when none does.
\<close>

theorem rename_profile_witness:
  "vars_name renameRequest \<noteq> ''default''
   \<and> fmlookup (cluster exampleDaemon) (''default'', ''web'') = Some webProfile
   \<and> DecodeProfilePost renameRequest = Inr \<lparr>ProfilePost.Name = ''db''\<rparr>
   \<and> fmlookup (cluster twoProfilesDaemon) (''default'', ''db'') \<noteq> None
   \<and> profilePost twoProfilesDaemon renameRequest =
       (InternalError (Errorf ''Name '%s' already in use'' [ArgS ''db'']), twoProfilesDaemon)
   \<and> fmlookup (cluster exampleDaemon) (''default'', ''db'') = None
   \<and> ProjectHasProfiles exampleDaemon ''default'' = Inr True
   \<and> fst (profilePost exampleDaemon renameRequest) =
       SyncResponseLocation True ''/1.0/profiles/db''
   \<and> fst (profileGet (snd (profilePost exampleDaemon renameRequest)) renameRequest) = NotFound
   \<and> fst (profileGet (snd (profilePost exampleDaemon renameRequest))
             (renameRequest\<lparr>vars_name := ''db''\<rparr>)) =
       SyncETag True
         \<lparr>Config = Config webProfile, Description = Description webProfile,
          Devices = Devices webProfile, Name = ''db''\<rparr>
         (EtagHash (Config webProfile, Description webProfile, Devices webProfile))"
  using rename_profile
          [of renameRequest twoProfilesDaemon webProfile "\<lparr>ProfilePost.Name = ''db''\<rparr>"]
        rename_profile
          [of renameRequest exampleDaemon webProfile "\<lparr>ProfilePost.Name = ''db''\<rparr>"]
  by (simp add: renameRequest_def twoProfilesDaemon_def emptyRequest_def exampleDaemon_def
        APIVersion_def)

text \<open>
  The claim as the specification states it fails: the response to a rename to a name in
  use is an internal error and not Conflict.
\<close>

theorem rename_profile_counterexample:
  "fmlookup (cluster twoProfilesDaemon) (''default'', ''db'') = Some webProfile
   \<and> fst (profilePost twoProfilesDaemon renameRequest) =
       InternalError (Errorf ''Name '%s' already in use'' [ArgS ''db''])
   \<and> \<not> is_Conflict (fst (profilePost twoProfilesDaemon renameRequest))"
  by (simp add: profilePost_def Let_def renameRequest_def twoProfilesDaemon_def
        emptyRequest_def exampleDaemon_def Transaction_def tx_ProfileGet_def SmartError_Errorf)

subsection \<open>The precondition check of replace and patch\<close>

lemma profileGet_token:
  assumes "profileGet d r = (SyncETag s q t, d')"
  shows "t = EtagHash (Config q, Description q, Devices q)"
  using assms
  by (auto simp: profileGet_def Let_def SyncResponseETag_def SmartError_def
           split: sum.splits error.splits if_splits)

lemma profilePatch_passed:
  assumes "cluster_ProfileGet (cluster d) (projectParam r) (vars_name r) = Inr profile"
      and "EtagCheck r (Config profile, Description profile, Devices profile) = None"
  shows "\<not> is_PreconditionFailed (fst (profilePatch d r))"
  using assms
  by (simp add: profilePatch_def Let_def SmartError_not_PreconditionFailed
           split: option.splits sum.splits prod.splits)

lemma profilePut_passed:
  assumes "cluster_ProfileGet (cluster d) (projectParam r) (vars_name r) = Inr profile"
      and "EtagCheck r (Config profile, Description profile, Devices profile) = None"
  shows "\<not> is_PreconditionFailed (fst (profilePut d r))"
  using assms
  by (simp add: profilePut_def Let_def SmartError_not_PreconditionFailed
           split: option.splits sum.splits prod.splits)

text \<open>
  C1, as the code has it. Let the profile that the request names exist. A patch request,
  and a replace request that is not a cluster notification, that carries a token other
  than the fingerprint of the profile's (config, description, devices) is answered with
  PreconditionFailed, and the daemon is as it was: nothing is written. A request that
  carries the token that a Get returned for a profile with the same config, description
  and devices passes the check: its response is not PreconditionFailed. (A replace
  request that is a cluster notification is handled at lines 176-188, before the check.)
\<close>

theorem precondition_check:
  assumes "cluster_ProfileGet (cluster d) (projectParam r) (vars_name r) = Inr profile"
  shows "(IfMatch r = Some t \<and>
          t \<noteq> EtagHash (Config profile, Description profile, Devices profile) \<longrightarrow>
            profilePatch d r = (PreconditionFailed ErrMismatch, d) \<and>
            (\<not> isClusterNotification r \<longrightarrow>
               profilePut d r = (PreconditionFailed ErrMismatch, d)))
       \<and> (profileGet d0 g = (SyncETag s q t, d1) \<and> Config q = Config profile \<and>
          Description q = Description profile \<and> Devices q = Devices profile \<and>
          IfMatch r = Some t \<longrightarrow>
            \<not> is_PreconditionFailed (fst (profilePatch d r)) \<and>
            \<not> is_PreconditionFailed (fst (profilePut d r)))"
proof (intro conjI impI)
  assume h: "IfMatch r = Some t \<and>
             t \<noteq> EtagHash (Config profile, Description profile, Devices profile)"
  then have chk:
    "EtagCheck r (Config profile, Description profile, Devices profile) = Some ErrMismatch"
    by (simp add: EtagCheck_mismatch)
  show "profilePatch d r = (PreconditionFailed ErrMismatch, d)"
    using assms chk by (simp add: profilePatch_def Let_def)
  assume "\<not> isClusterNotification r"
  then show "profilePut d r = (PreconditionFailed ErrMismatch, d)"
    using assms chk by (simp add: profilePut_def Let_def)
next
  assume h: "profileGet d0 g = (SyncETag s q t, d1) \<and> Config q = Config profile \<and>
             Description q = Description profile \<and> Devices q = Devices profile \<and>
             IfMatch r = Some t"
  then have "t = EtagHash (Config profile, Description profile, Devices profile)"
    using profileGet_token [of d0 g s q t d1] by simp
  then have chk: "EtagCheck r (Config profile, Description profile, Devices profile) = None"
    using h by (simp add: EtagCheck_match)
  show "\<not> is_PreconditionFailed (fst (profilePatch d r))"
    using assms chk by (rule profilePatch_passed)
  show "\<not> is_PreconditionFailed (fst (profilePut d r))"
    using assms chk by (rule profilePut_passed)
qed

text \<open>
  The witness: on \<^verbatim>\<open>web\<close>, a patch and a replace with the stale token, and with the
  token that Get returns.
\<close>

theorem precondition_check_witness:
  "cluster_ProfileGet (cluster exampleDaemon) ''default'' ''web'' =
     Inr \<lparr>Config = Config webProfile, Description = Description webProfile,
          Devices = Devices webProfile, Name = ''web''\<rparr>
   \<and> IfMatch staleRequest = Some staleToken
   \<and> staleToken \<noteq> EtagHash (Config webProfile, Description webProfile, Devices webProfile)
   \<and> \<not> isClusterNotification staleRequest
   \<and> profilePatch exampleDaemon staleRequest = (PreconditionFailed ErrMismatch, exampleDaemon)
   \<and> profilePut exampleDaemon staleRequest = (PreconditionFailed ErrMismatch, exampleDaemon)
   \<and> profileGet exampleDaemon emptyRequest =
       (SyncETag True
          \<lparr>Config = Config webProfile, Description = Description webProfile,
           Devices = Devices webProfile, Name = ''web''\<rparr> webToken, exampleDaemon)
   \<and> IfMatch freshRequest = Some webToken
   \<and> \<not> is_PreconditionFailed (fst (profilePatch exampleDaemon freshRequest))
   \<and> \<not> is_PreconditionFailed (fst (profilePut exampleDaemon freshRequest))"
proof -
  let ?web = "\<lparr>Config = Config webProfile, Description = Description webProfile,
               Devices = Devices webProfile, Name = ''web''\<rparr>"
  have stored: "fmlookup (cluster exampleDaemon) (''default'', ''web'') = Some webProfile"
    by (simp add: exampleDaemon_def)
  have get: "cluster_ProfileGet (cluster exampleDaemon) ''default'' ''web'' = Inr ?web"
    using stored by (rule cluster_ProfileGet_Some)
  have g: "profileGet exampleDaemon emptyRequest = (SyncETag True ?web webToken, exampleDaemon)"
    using profileGet_found [of exampleDaemon emptyRequest webProfile]
    by (simp add: exampleDaemon_def emptyRequest_def webToken_def)
  have stale: "cluster_ProfileGet (cluster exampleDaemon) (projectParam staleRequest)
                 (vars_name staleRequest) = Inr ?web"
    using get by (simp add: staleRequest_def emptyRequest_def)
  have fresh: "cluster_ProfileGet (cluster exampleDaemon) (projectParam freshRequest)
                 (vars_name freshRequest) = Inr ?web"
    using get by (simp add: freshRequest_def emptyRequest_def)
  have r1: "IfMatch staleRequest = Some staleToken" "\<not> isClusterNotification staleRequest"
    by (simp_all add: staleRequest_def emptyRequest_def)
  have r2: "IfMatch freshRequest = Some webToken"
    by (simp add: freshRequest_def)
  show ?thesis
    using precondition_check [OF stale, of staleToken exampleDaemon emptyRequest True ?web exampleDaemon]
          precondition_check [OF fresh, of webToken exampleDaemon emptyRequest True ?web exampleDaemon]
          get g r1 r2 staleToken_webProfile
    by simp
qed

text \<open>
  The claim as the specification states it fails on a replace request that is a cluster
  notification: it carries a token that does not match, and the response is the empty
  success, not PreconditionFailed.
\<close>

theorem precondition_check_counterexample:
  "isClusterNotification notificationRequest
   \<and> IfMatch notificationRequest = Some staleToken
   \<and> staleToken \<noteq> EtagHash (Config webProfile, Description webProfile, Devices webProfile)
   \<and> fmlookup (cluster exampleDaemon)
        (projectParam notificationRequest, vars_name notificationRequest) = Some webProfile
   \<and> fst (profilePut exampleDaemon notificationRequest) = EmptySyncResponse
   \<and> \<not> is_PreconditionFailed (fst (profilePut exampleDaemon notificationRequest))"
  using staleToken_webProfile
  by (simp add: profilePut_def Let_def notificationRequest_def staleRequest_def
        emptyRequest_def exampleDaemon_def SmartError_None)

subsection \<open>The merge of a patch\<close>

lemma copyMissing_lookup:
  "fmlookup (copyMissing kvs req) k =
     (case fmlookup req k of Some v \<Rightarrow> Some v | None \<Rightarrow> map_of kvs k)"
  by (induction kvs arbitrary: req) (auto split: option.splits)

lemma copyMissing_rangeMap:
  "fmlookup (copyMissing (rangeMap m) req) k =
     (case fmlookup req k of Some v \<Rightarrow> Some v | None \<Rightarrow> lookupMap m k)"
  by (cases m) (simp_all add: copyMissing_lookup rangeMap_def lookupMap_def split: option.splits)

lemma lookupMap_copyMissing:
  "lookupMap (Some (copyMissing (rangeMap m) req)) k =
     (case fmlookup req k of Some v \<Rightarrow> Some v | None \<Rightarrow> lookupMap m k)"
  by (simp add: lookupMap_def copyMissing_rangeMap)

lemma patchMerge_Config_eq:
  "Config (patchMerge profile reqRaw req) =
     (case Config req of
        None \<Rightarrow> Config profile
      | Some reqConfig \<Rightarrow> Some (copyMissing (rangeMap (Config profile)) reqConfig))"
  by (simp add: patchMerge_def Let_def split: sum.splits option.splits)

lemma patchMerge_Config:
  "lookupMap (Config (patchMerge profile reqRaw req)) k =
     (case lookupMap (Config req) k of
        Some v \<Rightarrow> Some v
      | None \<Rightarrow> lookupMap (Config profile) k)"
proof (cases "Config req")
  case None
  then show ?thesis by (simp add: patchMerge_Config_eq lookupMap_def)
next
  case (Some reqConfig)
  then show ?thesis
    by (simp add: patchMerge_Config_eq lookupMap_copyMissing) (simp add: lookupMap_def)
qed

lemma patchMerge_Description:
  "Description (patchMerge profile reqRaw req) =
     (case GetString reqRaw ''description'' of
        Inl err \<Rightarrow> Description profile
      | Inr _ \<Rightarrow> Description req)"
  by (simp add: patchMerge_def Let_def split: sum.splits option.splits)

text \<open>
  What a patch leaves in the store: either the daemon is as it was and the response is not
  the success, or the response is the success and the profile holds the merged document.
\<close>

lemma profilePatch_stored:
  assumes "fmlookup (cluster d) (projectParam r, vars_name r) = Some p"
  shows "(snd (profilePatch d r) = d \<and> fst (profilePatch d r) \<noteq> EmptySyncResponse)
       \<or> (\<exists>reqRaw req. DecodeJmap r = Inr reqRaw \<and> DecodeProfilePut r = Inr req \<and>
            fst (profilePatch d r) = EmptySyncResponse \<and>
            snd (profilePatch d r) =
              d\<lparr>cluster := fmupd (projectParam r, vars_name r)
                 (patchMerge \<lparr>Config = Config p, Description = Description p,
                               Devices = Devices p, Name = vars_name r\<rparr> reqRaw req)
                 (cluster d)\<rparr>)"
proof -
  let ?profile = "\<lparr>Config = Config p, Description = Description p,
                   Devices = Devices p, Name = vars_name r\<rparr>"
  note get = cluster_ProfileGet_Some [OF assms]
  show ?thesis
  proof (cases "EtagCheck r (Config p, Description p, Devices p)")
    case (Some e)
    then show ?thesis using get by (simp add: profilePatch_def Let_def)
  next
    case chk: None
    show ?thesis
    proof (cases "ReadAll r")
      case (Some e)
      then show ?thesis using get chk by (simp add: profilePatch_def Let_def)
    next
      case rd: None
      show ?thesis
      proof (cases "DecodeJmap r")
        case (Inl e)
        then show ?thesis using get chk rd by (simp add: profilePatch_def Let_def)
      next
        case raw: (Inr reqRaw)
        show ?thesis
        proof (cases "DecodeProfilePut r")
          case (Inl e)
          then show ?thesis using get chk rd raw by (simp add: profilePatch_def Let_def)
        next
          case typed: (Inr req)
          have eq: "profilePatch d r =
              (case doProfileUpdate d (projectParam r) (vars_name r) ?profile
                      (patchMerge ?profile reqRaw req) of
                 (err, d') \<Rightarrow> (SmartError err, d'))"
            using get chk rd raw typed by (simp add: profilePatch_def Let_def)
          from doProfileUpdate_cases [OF assms, of ?profile "patchMerge ?profile reqRaw req"]
          show ?thesis
          proof
            assume "doProfileUpdate d (projectParam r) (vars_name r) ?profile
                      (patchMerge ?profile reqRaw req) =
                    (None, d\<lparr>cluster := fmupd (projectParam r, vars_name r)
                                 (patchMerge ?profile reqRaw req) (cluster d)\<rparr>)"
            then show ?thesis using raw typed by (simp add: eq SmartError_None)
          next
            assume "\<exists>e. doProfileUpdate d (projectParam r) (vars_name r) ?profile
                      (patchMerge ?profile reqRaw req) = (Some e, d)"
            then obtain e where "doProfileUpdate d (projectParam r) (vars_name r) ?profile
                      (patchMerge ?profile reqRaw req) = (Some e, d)" ..
            then show ?thesis by (simp add: eq SmartError_Empty)
          qed
        qed
      qed
    qed
  qed
qed

text \<open>The patch of \<^verbatim>\<open>web\<close> with the empty config object succeeds and stores the merge.\<close>

lemma emptyConfigPatch_result:
  "profilePatch exampleDaemon emptyConfigPatch =
     (EmptySyncResponse,
      exampleDaemon\<lparr>cluster := fmupd (''default'', ''web'')
        (patchMerge \<lparr>Config = Config webProfile, Description = Description webProfile,
                      Devices = Devices webProfile, Name = ''web''\<rparr>
           [''config'' \<mapsto> JOther]
           \<lparr>Config = Some fmempty, Description = [], Devices = None\<rparr>)
        (cluster exampleDaemon)\<rparr>)"
  by (simp add: profilePatch_def Let_def emptyConfigPatch_def emptyRequest_def
        exampleDaemon_def cluster_ProfileGet_Some EtagCheck_def doProfileUpdate_def
        Transaction_def tx_ProfileUpdate_def SmartError_None)

text \<open>
  C2, as the code has it. Let the profile that a patch request names exist, and let the
  body decode to the document \<open>req\<close>. After the patch the profile still exists, and
  \<^item> a config key of the previous profile that the config of \<open>req\<close> does not have keeps its
    previous value (whether the patch succeeds or fails);
  \<^item> when the config of \<open>req\<close> is the empty map, present and not nil, every key of the
    config reads as it did before: the loop of lines 272-277 copies every previous entry
    into the empty map, so the config is not replaced by the empty map.
\<close>

theorem patch_config_merge:
  assumes "fmlookup (cluster d) (projectParam r, vars_name r) = Some p"
      and "DecodeProfilePut r = Inr req"
  shows "\<exists>p'. fmlookup (cluster (snd (profilePatch d r))) (projectParam r, vars_name r) = Some p'
       \<and> (lookupMap (Config p) k = Some v \<and> lookupMap (Config req) k = None \<longrightarrow>
            lookupMap (Config p') k = Some v)
       \<and> (Config req = Some fmempty \<longrightarrow>
            (\<forall>k. lookupMap (Config p') k = lookupMap (Config p) k))"
  using profilePatch_stored [OF assms(1)]
proof
  assume "snd (profilePatch d r) = d \<and> fst (profilePatch d r) \<noteq> EmptySyncResponse"
  then show ?thesis using assms(1) by simp
next
  assume "\<exists>reqRaw req. DecodeJmap r = Inr reqRaw \<and> DecodeProfilePut r = Inr req \<and>
            fst (profilePatch d r) = EmptySyncResponse \<and>
            snd (profilePatch d r) =
              d\<lparr>cluster := fmupd (projectParam r, vars_name r)
                 (patchMerge \<lparr>Config = Config p, Description = Description p,
                               Devices = Devices p, Name = vars_name r\<rparr> reqRaw req)
                 (cluster d)\<rparr>"
  then obtain reqRaw where
    "snd (profilePatch d r) =
              d\<lparr>cluster := fmupd (projectParam r, vars_name r)
                 (patchMerge \<lparr>Config = Config p, Description = Description p,
                               Devices = Devices p, Name = vars_name r\<rparr> reqRaw req)
                 (cluster d)\<rparr>"
    using assms(2) by auto
  then show ?thesis
    by (simp add: patchMerge_Config) (simp add: lookupMap_def)
qed

text \<open>
  The witness: \<^verbatim>\<open>web\<close> has the config key \<^verbatim>\<open>limits.cpu\<close>; the patch with the empty
  config object omits it.
\<close>

theorem patch_config_merge_witness:
  "fmlookup (cluster exampleDaemon) (projectParam emptyConfigPatch, vars_name emptyConfigPatch) =
     Some webProfile
   \<and> DecodeProfilePut emptyConfigPatch =
       Inr \<lparr>Config = Some fmempty, Description = [], Devices = None\<rparr>
   \<and> lookupMap (Config webProfile) ''limits.cpu'' = Some ''2''
   \<and> lookupMap (Some fmempty) ''limits.cpu'' = (None :: string option)
   \<and> (\<exists>p'. fmlookup (cluster (snd (profilePatch exampleDaemon emptyConfigPatch)))
               (''default'', ''web'') = Some p'
           \<and> lookupMap (Config p') ''limits.cpu'' = Some ''2''
           \<and> (\<forall>k. lookupMap (Config p') k = lookupMap (Config webProfile) k))"
  using patch_config_merge
          [of exampleDaemon emptyConfigPatch webProfile
              "\<lparr>Config = Some fmempty, Description = [], Devices = None\<rparr>" "''limits.cpu''" "''2''"]
  by (simp add: exampleDaemon_def emptyConfigPatch_def emptyRequest_def webProfile_def
        lookupMap_def)

text \<open>
  The claim as the specification states it fails: after the patch with the empty config
  object, which succeeds, the config of \<^verbatim>\<open>web\<close> still has \<^verbatim>\<open>limits.cpu\<close> and is not
  the empty map.
\<close>

theorem patch_config_merge_counterexample:
  "DecodeProfilePut emptyConfigPatch =
     Inr \<lparr>Config = Some fmempty, Description = [], Devices = None\<rparr>
   \<and> fst (profilePatch exampleDaemon emptyConfigPatch) = EmptySyncResponse
   \<and> lookupMap
        (Config (the (fmlookup (cluster (snd (profilePatch exampleDaemon emptyConfigPatch)))
                        (''default'', ''web''))))
        ''limits.cpu'' = Some ''2''
   \<and> Config (the (fmlookup (cluster (snd (profilePatch exampleDaemon emptyConfigPatch)))
                     (''default'', ''web''))) \<noteq> Some fmempty"
proof -
  let ?after = "the (fmlookup (cluster (snd (profilePatch exampleDaemon emptyConfigPatch)))
                       (''default'', ''web''))"
  have cpu: "lookupMap (Config ?after) ''limits.cpu'' = Some ''2''"
    by (simp add: emptyConfigPatch_result patchMerge_Config)
       (simp add: lookupMap_def webProfile_def)
  have "lookupMap (Some fmempty) ''limits.cpu'' = (None :: string option)"
    by (simp add: lookupMap_def)
  with cpu have "Config ?after \<noteq> Some fmempty"
    by auto
  with cpu show ?thesis
    by (simp add: emptyConfigPatch_result) (simp add: emptyConfigPatch_def)
qed

subsection \<open>The description of a patch\<close>

text \<open>
  A patch that passes the precondition check, whose body is read and decodes, and whose
  merged document passes validation, succeeds and stores the merged document.
\<close>

lemma profilePatch_success:
  assumes "fmlookup (cluster d) (projectParam r, vars_name r) = Some p"
      and "EtagCheck r (Config p, Description p, Devices p) = None"
      and "ReadAll r = None"
      and "DecodeJmap r = Inr reqRaw"
      and "DecodeProfilePut r = Inr req"
      and "containerValidConfig d
             (Config (patchMerge \<lparr>Config = Config p, Description = Description p,
                                   Devices = Devices p, Name = vars_name r\<rparr> reqRaw req)) = None"
      and "containerValidDevices d
             (Devices (patchMerge \<lparr>Config = Config p, Description = Description p,
                                    Devices = Devices p, Name = vars_name r\<rparr> reqRaw req)) = None"
  shows "profilePatch d r =
           (EmptySyncResponse,
            d\<lparr>cluster := fmupd (projectParam r, vars_name r)
               (patchMerge \<lparr>Config = Config p, Description = Description p,
                             Devices = Devices p, Name = vars_name r\<rparr> reqRaw req)
               (cluster d)\<rparr>)"
  using assms
  by (simp add: profilePatch_def Let_def cluster_ProfileGet_Some doProfileUpdate_def
        Transaction_def tx_ProfileUpdate_def SmartError_None)

text \<open>
  C9, as the code has it. Let the profile that a patch request names exist, and let the
  body decode to the untyped document \<open>reqRaw\<close> and to the typed document \<open>req\<close>. After
  the patch the profile still exists, and
  \<^item> when \<open>reqRaw\<close> has no key \<^verbatim>\<open>description\<close>, or has it with a value that is not a
    string (\<^verbatim>\<open>null\<close>), the description is the previous one: \<^verbatim>\<open>GetString\<close> fails in both
    cases (line 263), so the key being there is not enough;
  \<^item> when \<open>reqRaw\<close> has \<^verbatim>\<open>description\<close> as the string \<open>s\<close>, which the typed decoder
    reads as the description of \<open>req\<close>, and the request passes the precondition check,
    its body is read and the merged document passes validation, then the patch succeeds
    and the description is exactly \<open>s\<close>, the empty string too.
\<close>

theorem patch_description:
  assumes "fmlookup (cluster d) (projectParam r, vars_name r) = Some p"
      and "DecodeJmap r = Inr reqRaw"
      and "DecodeProfilePut r = Inr req"
  shows "\<exists>p'. fmlookup (cluster (snd (profilePatch d r))) (projectParam r, vars_name r) = Some p'
       \<and> (reqRaw ''description'' = None \<or> reqRaw ''description'' = Some JOther \<longrightarrow>
            Description p' = Description p)
       \<and> (reqRaw ''description'' = Some (JString s) \<and> Description req = s \<and>
          EtagCheck r (Config p, Description p, Devices p) = None \<and> ReadAll r = None \<and>
          containerValidConfig d
            (Config (patchMerge \<lparr>Config = Config p, Description = Description p,
                                  Devices = Devices p, Name = vars_name r\<rparr> reqRaw req)) = None \<and>
          containerValidDevices d
            (Devices (patchMerge \<lparr>Config = Config p, Description = Description p,
                                   Devices = Devices p, Name = vars_name r\<rparr> reqRaw req)) = None \<longrightarrow>
            fst (profilePatch d r) = EmptySyncResponse \<and> Description p' = s)"
proof -
  let ?merged = "patchMerge \<lparr>Config = Config p, Description = Description p,
                             Devices = Devices p, Name = vars_name r\<rparr> reqRaw req"
  let ?key = "(projectParam r, vars_name r)"
  let ?after = "fmlookup (cluster (snd (profilePatch d r))) ?key"
  have after: "?after = Some p \<or> ?after = Some ?merged"
    using profilePatch_stored [OF assms(1)] assms(1,2,3) by auto
  have kept: "Description ?merged = Description p"
    if "reqRaw ''description'' = None \<or> reqRaw ''description'' = Some JOther"
    using that by (auto simp: patchMerge_Description GetString_def)
  have supplied: "fst (profilePatch d r) = EmptySyncResponse \<and> ?after = Some ?merged \<and>
                  Description ?merged = s"
    if "reqRaw ''description'' = Some (JString s)" "Description req = s"
       "EtagCheck r (Config p, Description p, Devices p) = None" "ReadAll r = None"
       "containerValidConfig d (Config ?merged) = None"
       "containerValidDevices d (Devices ?merged) = None"
    using profilePatch_success [OF assms(1) that(3,4) assms(2,3) that(5,6)] that(1,2)
    by (simp add: patchMerge_Description GetString_def)
  from after show ?thesis
  proof
    assume "?after = Some p"
    then show ?thesis using supplied by auto
  next
    assume "?after = Some ?merged"
    then show ?thesis using kept supplied by auto
  qed
qed

text \<open>
  The witness, on \<^verbatim>\<open>web\<close>, whose description is "web servers": the patch with the empty
  object and the patch with \<^verbatim>\<open>null\<close> keep the description; the patch with "edge cache"
  and the patch with the empty string succeed and store what they supply.
\<close>

theorem patch_description_witness:
  "fmlookup (cluster exampleDaemon) (''default'', ''web'') = Some webProfile
   \<and> DecodeJmap emptyRequest = Inr Map.empty
   \<and> (\<exists>p'. fmlookup (cluster (snd (profilePatch exampleDaemon emptyRequest)))
               (''default'', ''web'') = Some p'
           \<and> Description p' = ''web servers'')
   \<and> DecodeJmap nullDescriptionPatch = Inr [''description'' \<mapsto> JOther]
   \<and> (\<exists>p'. fmlookup (cluster (snd (profilePatch exampleDaemon nullDescriptionPatch)))
               (''default'', ''web'') = Some p'
           \<and> Description p' = ''web servers'')
   \<and> DecodeJmap descriptionPatch = Inr [''description'' \<mapsto> JString ''edge cache'']
   \<and> DecodeProfilePut descriptionPatch =
       Inr \<lparr>Config = None, Description = ''edge cache'', Devices = None\<rparr>
   \<and> EtagCheck descriptionPatch
        (Config webProfile, Description webProfile, Devices webProfile) = None
   \<and> ReadAll descriptionPatch = None
   \<and> fst (profilePatch exampleDaemon descriptionPatch) = EmptySyncResponse
   \<and> (\<exists>p'. fmlookup (cluster (snd (profilePatch exampleDaemon descriptionPatch)))
               (''default'', ''web'') = Some p'
           \<and> Description p' = ''edge cache'')
   \<and> DecodeJmap emptyDescriptionPatch = Inr [''description'' \<mapsto> JString []]
   \<and> fst (profilePatch exampleDaemon emptyDescriptionPatch) = EmptySyncResponse
   \<and> (\<exists>p'. fmlookup (cluster (snd (profilePatch exampleDaemon emptyDescriptionPatch)))
               (''default'', ''web'') = Some p'
           \<and> Description p' = [])"
proof -
  have stored: "fmlookup (cluster exampleDaemon) (''default'', ''web'') = Some webProfile"
    by (simp add: exampleDaemon_def)
  have valid: "containerValidConfig exampleDaemon c = None"
              "containerValidDevices exampleDaemon v = None" for c v
    by (simp_all add: exampleDaemon_def)
  have r0: "projectParam emptyRequest = ''default''" "vars_name emptyRequest = ''web''"
           "DecodeJmap emptyRequest = Inr Map.empty"
           "DecodeProfilePut emptyRequest = Inr \<lparr>Config = None, Description = [], Devices = None\<rparr>"
    by (simp_all add: emptyRequest_def)
  have r1: "projectParam nullDescriptionPatch = ''default''" "vars_name nullDescriptionPatch = ''web''"
           "DecodeJmap nullDescriptionPatch = Inr [''description'' \<mapsto> JOther]"
           "DecodeProfilePut nullDescriptionPatch =
              Inr \<lparr>Config = None, Description = [], Devices = None\<rparr>"
    by (simp_all add: nullDescriptionPatch_def emptyRequest_def)
  have r2: "projectParam descriptionPatch = ''default''" "vars_name descriptionPatch = ''web''"
           "DecodeJmap descriptionPatch = Inr [''description'' \<mapsto> JString ''edge cache'']"
           "DecodeProfilePut descriptionPatch =
              Inr \<lparr>Config = None, Description = ''edge cache'', Devices = None\<rparr>"
           "ReadAll descriptionPatch = None"
    by (simp_all add: descriptionPatch_def emptyRequest_def)
  have r3: "projectParam emptyDescriptionPatch = ''default''"
           "vars_name emptyDescriptionPatch = ''web''"
           "DecodeJmap emptyDescriptionPatch = Inr [''description'' \<mapsto> JString []]"
           "DecodeProfilePut emptyDescriptionPatch =
              Inr \<lparr>Config = None, Description = [], Devices = None\<rparr>"
           "ReadAll emptyDescriptionPatch = None"
    by (simp_all add: emptyDescriptionPatch_def emptyRequest_def)
  have chk: "EtagCheck descriptionPatch data = None" "EtagCheck emptyDescriptionPatch data = None"
    for data
    by (simp_all add: EtagCheck_def descriptionPatch_def emptyDescriptionPatch_def
          emptyRequest_def)
  have d0: "Description webProfile = ''web servers''"
    by (simp add: webProfile_def)
  show ?thesis
    using patch_description
            [of exampleDaemon emptyRequest webProfile Map.empty
                "\<lparr>Config = None, Description = [], Devices = None\<rparr>" "[]"]
          patch_description
            [of exampleDaemon nullDescriptionPatch webProfile "[''description'' \<mapsto> JOther]"
                "\<lparr>Config = None, Description = [], Devices = None\<rparr>" "[]"]
          patch_description
            [of exampleDaemon descriptionPatch webProfile
                "[''description'' \<mapsto> JString ''edge cache'']"
                "\<lparr>Config = None, Description = ''edge cache'', Devices = None\<rparr>"
                "''edge cache''"]
          patch_description
            [of exampleDaemon emptyDescriptionPatch webProfile
                "[''description'' \<mapsto> JString []]"
                "\<lparr>Config = None, Description = [], Devices = None\<rparr>" "[]"]
    by (simp add: stored valid r0 r1 r2 r3 chk d0) blast
qed

text \<open>
  The claim as the specification states it fails: the body with \<^verbatim>\<open>description\<close> as
  \<^verbatim>\<open>null\<close> contains the key, the patch succeeds, and the description of \<^verbatim>\<open>web\<close> is the
  previous one, not the value the typed document has for it.
\<close>

theorem patch_description_counterexample:
  "DecodeJmap nullDescriptionPatch = Inr [''description'' \<mapsto> JOther]
   \<and> [''description'' \<mapsto> JOther] ''description'' \<noteq> None
   \<and> DecodeProfilePut nullDescriptionPatch =
       Inr \<lparr>Config = None, Description = [], Devices = None\<rparr>
   \<and> fst (profilePatch exampleDaemon nullDescriptionPatch) = EmptySyncResponse
   \<and> Description (the (fmlookup (cluster (snd (profilePatch exampleDaemon nullDescriptionPatch)))
                          (''default'', ''web''))) = ''web servers''
   \<and> Description (the (fmlookup (cluster (snd (profilePatch exampleDaemon nullDescriptionPatch)))
                          (''default'', ''web''))) \<noteq> []"
  by (simp add: profilePatch_def Let_def nullDescriptionPatch_def emptyRequest_def
        exampleDaemon_def cluster_ProfileGet_Some EtagCheck_def doProfileUpdate_def
        Transaction_def tx_ProfileUpdate_def SmartError_None patchMerge_Description
        GetString_def webProfile_def)

subsection \<open>Propagation after a replace\<close>

text \<open>
  C5, as the code has it. Let a replace request that is not a cluster notification pass
  the precondition check and decode, and let the local update succeed, leaving the
  daemon \<open>d'\<close>. Then the daemon afterwards is \<open>d'\<close>, whose store holds the new fields,
  whatever the propagation does; the response is \<^verbatim>\<open>SmartError\<close> of the error of
  \<^verbatim>\<open>cluster.NewNotifier\<close> or, when the notifier was made, of the error the notifier
  reports (lines 211-220). So the response is the success exactly when the notifier was
  made and reports no error; an error of the propagation is the response of the request.
\<close>

theorem replace_propagation:
  assumes "\<not> isClusterNotification r"
      and "cluster_ProfileGet (cluster d) (projectParam r) (vars_name r) = Inr profile"
      and "EtagCheck r (Config profile, Description profile, Devices profile) = None"
      and "DecodeProfilePut r = Inr req"
      and "doProfileUpdate d (projectParam r) (vars_name r) profile req = (None, d')"
  shows "snd (profilePut d r) = d'
       \<and> fmlookup (cluster d') (projectParam r, vars_name r) = Some req
       \<and> fst (profilePut d r) =
           (case NewNotifier d' of
              Inl err \<Rightarrow> SmartError (Some err)
            | Inr notifier \<Rightarrow>
                SmartError (notifier (\<lambda>client.
                  UpdateProfile client (vars_name r) (ProfilePut_of profile) None)))
       \<and> (fst (profilePut d r) = EmptySyncResponse \<longleftrightarrow>
            (\<exists>notifier. NewNotifier d' = Inr notifier \<and>
               notifier (\<lambda>client.
                  UpdateProfile client (vars_name r) (ProfilePut_of profile) None) = None))"
proof -
  have d': "d' = d\<lparr>cluster := fmupd (projectParam r, vars_name r) req (cluster d)\<rparr>"
    using assms(5) by (rule doProfileUpdate_None)
  have put: "profilePut d r =
     ((case NewNotifier d' of
         Inl err \<Rightarrow> SmartError (Some err)
       | Inr notifier \<Rightarrow>
           SmartError (notifier (\<lambda>client.
             UpdateProfile client (vars_name r) (ProfilePut_of profile) None))), d')"
    using assms by (simp add: profilePut_def Let_def SmartError_None split: sum.splits option.splits)
  show ?thesis
    by (auto simp: put d' SmartError_Empty split: sum.splits)
qed

lemma replace_web:
  assumes "cluster d = cluster exampleDaemon"
      and "containerValidConfig d = (\<lambda>config. None)"
      and "containerValidDevices d = (\<lambda>devices. None)"
  shows "doProfileUpdate d ''default'' ''web'' profile newFields =
           (None, d\<lparr>cluster := fmupd (''default'', ''web'') newFields (cluster d)\<rparr>)"
  using assms
  by (simp add: doProfileUpdate_def Transaction_def tx_ProfileUpdate_def exampleDaemon_def)

text \<open>
  The witness: the replace of \<^verbatim>\<open>web\<close> on the daemon whose notifier reports no error, and
  on the daemon with the failing peer.
\<close>

theorem replace_propagation_witness:
  "\<not> isClusterNotification replaceRequest
   \<and> EtagCheck replaceRequest
        (Config webProfile, Description webProfile, Devices webProfile) = None
   \<and> DecodeProfilePut replaceRequest = Inr newFields
   \<and> fmlookup (cluster (snd (profilePut exampleDaemon replaceRequest))) (''default'', ''web'') =
       Some newFields
   \<and> fst (profilePut exampleDaemon replaceRequest) = EmptySyncResponse
   \<and> fmlookup (cluster (snd (profilePut failingPeerDaemon replaceRequest))) (''default'', ''web'') =
       Some newFields
   \<and> fst (profilePut failingPeerDaemon replaceRequest) = InternalError (Errorf ''peer failed'' [])"
proof -
  let ?web = "\<lparr>Config = Config webProfile, Description = Description webProfile,
               Devices = Devices webProfile, Name = ''web''\<rparr>"
  have r: "\<not> isClusterNotification replaceRequest"
          "projectParam replaceRequest = ''default''" "vars_name replaceRequest = ''web''"
          "DecodeProfilePut replaceRequest = Inr newFields"
          "EtagCheck replaceRequest (Config ?web, Description ?web, Devices ?web) = None"
    by (simp_all add: replaceRequest_def emptyRequest_def EtagCheck_def)
  have g1: "cluster_ProfileGet (cluster exampleDaemon) (projectParam replaceRequest)
              (vars_name replaceRequest) = Inr ?web"
    by (simp add: r cluster_ProfileGet_Some exampleDaemon_def)
  have g2: "cluster_ProfileGet (cluster failingPeerDaemon) (projectParam replaceRequest)
              (vars_name replaceRequest) = Inr ?web"
    by (simp add: r cluster_ProfileGet_Some failingPeerDaemon_def exampleDaemon_def)
  have u1: "doProfileUpdate exampleDaemon (projectParam replaceRequest)
              (vars_name replaceRequest) ?web newFields =
            (None, exampleDaemon\<lparr>cluster := fmupd (''default'', ''web'') newFields
                                               (cluster exampleDaemon)\<rparr>)"
    by (simp add: r replace_web) (simp add: replace_web exampleDaemon_def)
  have u2: "doProfileUpdate failingPeerDaemon (projectParam replaceRequest)
              (vars_name replaceRequest) ?web newFields =
            (None, failingPeerDaemon\<lparr>cluster := fmupd (''default'', ''web'') newFields
                                                   (cluster failingPeerDaemon)\<rparr>)"
    by (simp add: r) (simp add: replace_web failingPeerDaemon_def exampleDaemon_def)
  show ?thesis
    using replace_propagation [OF r(1) g1 r(5) r(4) u1]
          replace_propagation [OF r(1) g2 r(5) r(4) u2] r
    by (simp add: exampleDaemon_def failingPeerDaemon_def failingPeer_def SmartError_None
          SmartError_Errorf)
qed

text \<open>
  The claim as the specification states it fails: the replace of \<^verbatim>\<open>web\<close> succeeds
  locally, the peer fails, and the response to the client is the peer's error.
\<close>

theorem replace_propagation_counterexample:
  "\<not> isClusterNotification replaceRequest
   \<and> fmlookup (cluster (snd (profilePut failingPeerDaemon replaceRequest))) (''default'', ''web'') =
       Some newFields
   \<and> fst (profilePut failingPeerDaemon replaceRequest) = InternalError (Errorf ''peer failed'' [])
   \<and> fst (profilePut failingPeerDaemon replaceRequest) \<noteq> EmptySyncResponse"
  by (simp add: profilePut_def Let_def replaceRequest_def emptyRequest_def failingPeerDaemon_def
        exampleDaemon_def failingPeer_def cluster_ProfileGet_Some EtagCheck_def
        doProfileUpdate_def Transaction_def tx_ProfileUpdate_def SmartError_Errorf)

subsection \<open>The fingerprint that Get returns\<close>

lemma fmap_of_list_perm:
  assumes "distinct (map fst xs)" and "mset xs = mset ys"
  shows "fmap_of_list xs = fmap_of_list ys"
proof (rule fmap_ext)
  fix k
  have "mset (map fst xs) = mset (map fst ys)"
    using assms(2) by (metis mset_map)
  then have dy: "distinct (map fst ys)"
    using assms(1) by (metis mset_eq_imp_distinct_iff)
  have "set xs = set ys"
    using assms(2) by (rule mset_eq_setD)
  then have "map_of xs k = map_of ys k"
    using assms(1) dy by (metis map_of_inject_set)
  then show "fmlookup (fmap_of_list xs) k = fmlookup (fmap_of_list ys) k"
    by (simp add: fmlookup_of_list)
qed

text \<open>
  Get answers with the stored profile of the effective namespace and with the fingerprint
  of its three stored fields (lines 143-166).
\<close>

lemma profileGet_stored:
  assumes "ProjectHasProfiles d (projectParam r) = Inr b"
      and "fmlookup (cluster d) (if b then projectParam r else ''default'', vars_name r) = Some p"
  shows "profileGet d r =
           (SyncETag True
              \<lparr>Config = Config p, Description = Description p, Devices = Devices p,
               Name = vars_name r\<rparr>
              (EtagHash (Config p, Description p, Devices p)), d)"
  using assms
  by (cases b)
     (simp_all add: profileGet_def Let_def tx_ProfileGet_def ProfileToAPI_def
        SyncResponseETag_def)

text \<open>
  C3. Let two Get requests find the stored profiles \<open>p\<close> and \<open>p'\<close> in their effective
  namespaces (the requested one, or \<^verbatim>\<open>default\<close> when the requested one has no profiles
  capability). Each Get succeeds and returns the stored config, description and devices
  with a token; the two tokens are equal exactly when the stored config, the stored
  description and the stored devices are equal: equal fields give equal tokens, and a
  difference in any one of the three stored fields gives different tokens. The order in
  which the entries of a map are given does not count: when the configs and the devices
  of the two profiles are made of the same entries listed in different orders (with
  distinct keys) and the descriptions are equal, the tokens are equal. A map of the model
  has no entry order, as a Go map has none, so this last part is the token being a function
  of the maps.
\<close>

theorem fingerprint_function:
  assumes "ProjectHasProfiles d (projectParam r) = Inr b"
      and "fmlookup (cluster d) (if b then projectParam r else ''default'', vars_name r) = Some p"
      and "ProjectHasProfiles d' (projectParam r') = Inr b'"
      and "fmlookup (cluster d') (if b' then projectParam r' else ''default'', vars_name r') =
             Some p'"
  shows "\<exists>t t'.
           profileGet d r =
             (SyncETag True
                \<lparr>Config = Config p, Description = Description p, Devices = Devices p,
                 Name = vars_name r\<rparr> t, d)
         \<and> profileGet d' r' =
             (SyncETag True
                \<lparr>Config = Config p', Description = Description p', Devices = Devices p',
                 Name = vars_name r'\<rparr> t', d')
         \<and> (t = t' \<longleftrightarrow>
              Config p = Config p' \<and> Description p = Description p' \<and> Devices p = Devices p')
         \<and> (distinct (map fst xs) \<and> mset xs = mset ys \<and>
            distinct (map fst us) \<and> mset us = mset vs \<and>
            Config p = Some (fmap_of_list xs) \<and> Config p' = Some (fmap_of_list ys) \<and>
            Devices p = Some (fmap_of_list us) \<and> Devices p' = Some (fmap_of_list vs) \<and>
            Description p = Description p' \<longrightarrow> t = t')"
proof (intro exI conjI impI)
  show "profileGet d r =
          (SyncETag True
             \<lparr>Config = Config p, Description = Description p, Devices = Devices p,
              Name = vars_name r\<rparr>
             (EtagHash (Config p, Description p, Devices p)), d)"
    using assms(1,2) by (rule profileGet_stored)
  show "profileGet d' r' =
          (SyncETag True
             \<lparr>Config = Config p', Description = Description p', Devices = Devices p',
              Name = vars_name r'\<rparr>
             (EtagHash (Config p', Description p', Devices p')), d')"
    using assms(3,4) by (rule profileGet_stored)
  show "EtagHash (Config p, Description p, Devices p) =
        EtagHash (Config p', Description p', Devices p') \<longleftrightarrow>
          Config p = Config p' \<and> Description p = Description p' \<and> Devices p = Devices p'"
    by (rule EtagHash_inj)
  assume h: "distinct (map fst xs) \<and> mset xs = mset ys \<and>
            distinct (map fst us) \<and> mset us = mset vs \<and>
            Config p = Some (fmap_of_list xs) \<and> Config p' = Some (fmap_of_list ys) \<and>
            Devices p = Some (fmap_of_list us) \<and> Devices p' = Some (fmap_of_list vs) \<and>
            Description p = Description p'"
  then have "fmap_of_list xs = fmap_of_list ys" and "fmap_of_list us = fmap_of_list vs"
    by (simp_all add: fmap_of_list_perm)
  with h show "EtagHash (Config p, Description p, Devices p) =
               EtagHash (Config p', Description p', Devices p')"
    by simp
qed

text \<open>
  The witness. Get on \<^verbatim>\<open>web\<close> against Get on \<^verbatim>\<open>web\<close> stored with another config, with
  another description, with other devices: the tokens differ each time. Get on \<^verbatim>\<open>web\<close>
  through the namespace \<^verbatim>\<open>p1\<close>, which has no profiles capability: the same token. Get on
  \<^verbatim>\<open>web\<close> stored with two config entries and two devices, listed in both orders: the
  same token.
\<close>

theorem fingerprint_function_witness:
  "(\<exists>t t'. profileGet (daemonWith webProfile) emptyRequest =
              (SyncETag True (webWith webProfile) t, daemonWith webProfile)
          \<and> profileGet (daemonWith otherConfig) emptyRequest =
              (SyncETag True (webWith otherConfig) t', daemonWith otherConfig)
          \<and> t \<noteq> t')
   \<and> (\<exists>t t'. profileGet (daemonWith webProfile) emptyRequest =
              (SyncETag True (webWith webProfile) t, daemonWith webProfile)
          \<and> profileGet (daemonWith otherDescription) emptyRequest =
              (SyncETag True (webWith otherDescription) t', daemonWith otherDescription)
          \<and> t \<noteq> t')
   \<and> (\<exists>t t'. profileGet (daemonWith webProfile) emptyRequest =
              (SyncETag True (webWith webProfile) t, daemonWith webProfile)
          \<and> profileGet (daemonWith otherDevices) emptyRequest =
              (SyncETag True (webWith otherDevices) t', daemonWith otherDevices)
          \<and> t \<noteq> t')
   \<and> ProjectHasProfiles (daemonWith webProfile) ''p1'' = Inr False
   \<and> (\<exists>t t'. profileGet (daemonWith webProfile) emptyRequest =
              (SyncETag True (webWith webProfile) t, daemonWith webProfile)
          \<and> profileGet (daemonWith webProfile) (emptyRequest\<lparr>projectParam := ''p1''\<rparr>) =
              (SyncETag True (webWith webProfile) t', daemonWith webProfile)
          \<and> t = t')
   \<and> (\<exists>t t'. profileGet
               (daemonWith
                  (listedProfile
                     [(''limits.cpu'', ''2''), (''limits.memory'', ''512MB'')]
                     [(''root'', fmupd ''path'' ''/'' fmempty),
                      (''eth0'', fmupd ''nictype'' ''bridged'' fmempty)]))
               emptyRequest =
              (SyncETag True
                 (webWith
                    (listedProfile
                       [(''limits.cpu'', ''2''), (''limits.memory'', ''512MB'')]
                       [(''root'', fmupd ''path'' ''/'' fmempty),
                        (''eth0'', fmupd ''nictype'' ''bridged'' fmempty)])) t,
               daemonWith
                 (listedProfile
                    [(''limits.cpu'', ''2''), (''limits.memory'', ''512MB'')]
                    [(''root'', fmupd ''path'' ''/'' fmempty),
                     (''eth0'', fmupd ''nictype'' ''bridged'' fmempty)]))
          \<and> profileGet
               (daemonWith
                  (listedProfile
                     [(''limits.memory'', ''512MB''), (''limits.cpu'', ''2'')]
                     [(''eth0'', fmupd ''nictype'' ''bridged'' fmempty),
                      (''root'', fmupd ''path'' ''/'' fmempty)]))
               emptyRequest =
              (SyncETag True
                 (webWith
                    (listedProfile
                       [(''limits.memory'', ''512MB''), (''limits.cpu'', ''2'')]
                       [(''eth0'', fmupd ''nictype'' ''bridged'' fmempty),
                        (''root'', fmupd ''path'' ''/'' fmempty)])) t',
               daemonWith
                 (listedProfile
                    [(''limits.memory'', ''512MB''), (''limits.cpu'', ''2'')]
                    [(''eth0'', fmupd ''nictype'' ''bridged'' fmempty),
                     (''root'', fmupd ''path'' ''/'' fmempty)]))
          \<and> t = t')"
proof -
  let ?xs = "[(''limits.cpu'', ''2''), (''limits.memory'', ''512MB'')]"
  let ?ys = "[(''limits.memory'', ''512MB''), (''limits.cpu'', ''2'')]"
  let ?us = "[(''root'', fmupd ''path'' ''/'' fmempty),
              (''eth0'', fmupd ''nictype'' ''bridged'' fmempty)]"
  let ?vs = "[(''eth0'', fmupd ''nictype'' ''bridged'' fmempty),
              (''root'', fmupd ''path'' ''/'' fmempty)]"
  have cap: "ProjectHasProfiles (daemonWith q) (projectParam emptyRequest) = Inr True"
            "ProjectHasProfiles (daemonWith q) (projectParam (emptyRequest\<lparr>projectParam := ''p1''\<rparr>)) =
               Inr False"
            "ProjectHasProfiles (daemonWith q) ''p1'' = Inr False" for q
    by (simp_all add: daemonWith_def exampleDaemon_def emptyRequest_def)
  have stored:
    "fmlookup (cluster (daemonWith q))
       (if True then projectParam emptyRequest else ''default'', vars_name emptyRequest) = Some q"
    "fmlookup (cluster (daemonWith q))
       (if False then projectParam (emptyRequest\<lparr>projectParam := ''p1''\<rparr>) else ''default'',
        vars_name (emptyRequest\<lparr>projectParam := ''p1''\<rparr>)) = Some q" for q
    by (simp_all add: daemonWith_def emptyRequest_def)
  have name: "vars_name emptyRequest = ''web''"
             "vars_name (emptyRequest\<lparr>projectParam := ''p1''\<rparr>) = ''web''"
    by (simp_all add: emptyRequest_def)
  have "fmlookup (fmupd ''limits.cpu'' ''2'' fmempty) ''limits.cpu'' \<noteq>
        fmlookup (fmupd ''limits.cpu'' ''4'' fmempty) ''limits.cpu''"
    by simp
  then have "fmupd ''limits.cpu'' ''2'' fmempty \<noteq> fmupd ''limits.cpu'' ''4'' (fmempty :: (string, string) fmap)"
    by metis
  then have ne_config: "Config webProfile \<noteq> Config otherConfig"
    by (simp add: webProfile_def otherConfig_def)
  have ne_description: "Description webProfile \<noteq> Description otherDescription"
    by (simp add: webProfile_def otherDescription_def)
  have "fmlookup (fmempty :: (string, (string, string) fmap) fmap) ''root'' \<noteq>
        fmlookup (fmupd ''root'' (fmupd ''path'' ''/'' fmempty) fmempty) ''root''"
    by simp
  then have "(fmempty :: (string, (string, string) fmap) fmap) \<noteq>
             fmupd ''root'' (fmupd ''path'' ''/'' fmempty) fmempty"
    by metis
  then have ne_devices: "Devices webProfile \<noteq> Devices otherDevices"
    by (simp add: webProfile_def otherDevices_def)
  have listed:
    "Config (listedProfile xs us) = Some (fmap_of_list xs)"
    "Devices (listedProfile xs us) = Some (fmap_of_list us)"
    "Description (listedProfile xs us) = Description webProfile" for xs us
    by (simp_all add: listedProfile_def)
  have perm: "distinct (map fst ?xs)" "mset ?xs = mset ?ys"
             "distinct (map fst ?us)" "mset ?us = mset ?vs"
    by simp_all
  note w1 = fingerprint_function
              [OF cap(1) [of webProfile] stored(1) [of webProfile]
                  cap(1) [of otherConfig] stored(1) [of otherConfig], of "[]" "[]" "[]" "[]"]
  note w2 = fingerprint_function
              [OF cap(1) [of webProfile] stored(1) [of webProfile]
                  cap(1) [of otherDescription] stored(1) [of otherDescription],
               of "[]" "[]" "[]" "[]"]
  note w3 = fingerprint_function
              [OF cap(1) [of webProfile] stored(1) [of webProfile]
                  cap(1) [of otherDevices] stored(1) [of otherDevices], of "[]" "[]" "[]" "[]"]
  note w4 = fingerprint_function
              [OF cap(1) [of webProfile] stored(1) [of webProfile]
                  cap(2) [of webProfile] stored(2) [of webProfile], of "[]" "[]" "[]" "[]"]
  note w5 = fingerprint_function
              [OF cap(1) [of "listedProfile ?xs ?us"] stored(1) [of "listedProfile ?xs ?us"]
                  cap(1) [of "listedProfile ?ys ?vs"] stored(1) [of "listedProfile ?ys ?vs"],
               of ?xs ?ys ?us ?vs]
  have c1: "\<exists>t t'. profileGet (daemonWith webProfile) emptyRequest =
              (SyncETag True (webWith webProfile) t, daemonWith webProfile)
          \<and> profileGet (daemonWith otherConfig) emptyRequest =
              (SyncETag True (webWith otherConfig) t', daemonWith otherConfig)
          \<and> t \<noteq> t'"
    using w1 ne_config by (auto simp: webWith_def name)
  have c2: "\<exists>t t'. profileGet (daemonWith webProfile) emptyRequest =
              (SyncETag True (webWith webProfile) t, daemonWith webProfile)
          \<and> profileGet (daemonWith otherDescription) emptyRequest =
              (SyncETag True (webWith otherDescription) t', daemonWith otherDescription)
          \<and> t \<noteq> t'"
    using w2 ne_description by (auto simp: webWith_def name)
  have c3: "\<exists>t t'. profileGet (daemonWith webProfile) emptyRequest =
              (SyncETag True (webWith webProfile) t, daemonWith webProfile)
          \<and> profileGet (daemonWith otherDevices) emptyRequest =
              (SyncETag True (webWith otherDevices) t', daemonWith otherDevices)
          \<and> t \<noteq> t'"
    using w3 ne_devices by (auto simp: webWith_def name)
  have c4: "\<exists>t t'. profileGet (daemonWith webProfile) emptyRequest =
              (SyncETag True (webWith webProfile) t, daemonWith webProfile)
          \<and> profileGet (daemonWith webProfile) (emptyRequest\<lparr>projectParam := ''p1''\<rparr>) =
              (SyncETag True (webWith webProfile) t', daemonWith webProfile)
          \<and> t = t'"
    using w4 by (auto simp: webWith_def name)
  have c5: "\<exists>t t'. profileGet (daemonWith (listedProfile ?xs ?us)) emptyRequest =
              (SyncETag True (webWith (listedProfile ?xs ?us)) t,
               daemonWith (listedProfile ?xs ?us))
          \<and> profileGet (daemonWith (listedProfile ?ys ?vs)) emptyRequest =
              (SyncETag True (webWith (listedProfile ?ys ?vs)) t',
               daemonWith (listedProfile ?ys ?vs))
          \<and> t = t'"
    using w5 perm by (auto simp: webWith_def name listed)
  from c1 c2 c3 cap(3) [of webProfile] c4 c5 show ?thesis
    by (intro conjI)
qed

subsection \<open>The namespace of a create\<close>

text \<open>
  Get resolves the namespace (lines 143-150): in a namespace without the profiles
  capability it answers with the profile of the namespace \<^verbatim>\<open>default\<close>.
\<close>

lemma profileGet_resolves:
  assumes "ProjectHasProfiles d (projectParam r) = Inr False"
  shows "profileGet d r =
           (case tx_ProfileGet (cluster d) ''default'' (vars_name r) of
              Inl err \<Rightarrow> (SmartError (Some (Wrap err ''Fetch profile'')), d)
            | Inr profile \<Rightarrow>
                (SyncETag True (ProfileToAPI profile)
                   (EtagHash (Config profile, Description profile, Devices profile)), d))"
  using assms
  by (simp add: profileGet_def Let_def SyncResponseETag_def ProfileToAPI_def split: sum.splits)

text \<open>List resolves the namespace in the same way (lines 46-53).\<close>

lemma profilesGet_resolves:
  assumes "ProjectHasProfiles d (projectParam r) = Inr False"
  shows "profilesGet d r =
           (if IsRecursionRequest r then
              (case tx_ProfileList (cluster d) ''default'' of
                 Inl err \<Rightarrow> (SmartError (Some err), d)
               | Inr profiles \<Rightarrow> (SyncResponse True (Profiles (map ProfileToAPI profiles)), d))
            else
              (case tx_ProfileURIs (cluster d) ''default'' of
                 Inl err \<Rightarrow> (SmartError (Some err), d)
               | Inr uris \<Rightarrow> (SyncResponse True (URIs uris), d)))"
  using assms
  by (simp add: profilesGet_def Let_def split: sum.splits)

text \<open>
  C4, at the input where the code leaves the claim. The namespace \<^verbatim>\<open>p1\<close> has no
  profiles capability. The create of \<^verbatim>\<open>cache\<close> in \<^verbatim>\<open>p1\<close> succeeds and inserts the
  profile under \<^verbatim>\<open>p1\<close>: nothing is inserted under \<^verbatim>\<open>default\<close>, and a Get of \<^verbatim>\<open>cache\<close>
  in \<^verbatim>\<open>p1\<close>, which resolves the namespace, answers NotFound.
\<close>

theorem create_in_requested_namespace:
  "ProjectHasProfiles exampleDaemon (projectParam createInP1) = Inr False
   \<and> fst (profilesPost exampleDaemon createInP1) =
       SyncResponseLocation True ''/1.0/profiles/cache''
   \<and> fmlookup (cluster (snd (profilesPost exampleDaemon createInP1))) (''p1'', ''cache'') =
       Some \<lparr>Config = None, Description = ''a cache'', Devices = None\<rparr>
   \<and> fmlookup (cluster (snd (profilesPost exampleDaemon createInP1))) (''default'', ''cache'') =
       None
   \<and> fst (profileGet (snd (profilesPost exampleDaemon createInP1))
             (emptyRequest\<lparr>projectParam := ''p1'', vars_name := ''cache''\<rparr>)) = NotFound"
  by (simp add: profilesPost_def profileGet_def Let_def createInP1_def emptyRequest_def
        exampleDaemon_def cluster_ProfileGet_None Transaction_def tx_ProfileCreate_def
        tx_ProfileGet_def APIVersion_def SmartError_def)

end
